theory Spec2Isabelle
  imports Main
begin

section \<open>Python values\<close>

text \<open>
  Both tools work on the values that \<^verbatim>\<open>json.load\<close> and \<^verbatim>\<open>response.json()\<close>
  return: \<^verbatim>\<open>None\<close>, booleans, integers, strings, lists and dictionaries with
  string keys. A dictionary is the list of its items in insertion order; the keys
  of a parsed dictionary are distinct. JSON numbers with a fraction are not part
  of the model.
\<close>

datatype json =
    JNull
  | JBool bool
  | JInt int
  | JStr string
  | JList "json list"
  | JObj "(string \<times> json) list"

datatype py_error =
    KeyError
  | TypeError
  | AttributeError
  | ValueError
  | JSONDecodeError
  | RequestException
  | Unmodelled

text \<open>Truth value of an object, as \<^verbatim>\<open>if x:\<close> tests it.\<close>

fun truthy :: "json \<Rightarrow> bool" where
  "truthy JNull = False"
| "truthy (JBool b) = b"
| "truthy (JInt i) = (i \<noteq> 0)"
| "truthy (JStr s) = (s \<noteq> [])"
| "truthy (JList xs) = (xs \<noteq> [])"
| "truthy (JObj kvs) = (kvs \<noteq> [])"

text \<open>
  The operator \<^verbatim>\<open>==\<close>. A boolean equals the integer 0 or 1 it stands for; lists
  are compared element by element; dictionaries are equal when they have as many
  items and every key of the first has an equal value in the second.
\<close>

fun py_eq :: "json \<Rightarrow> json \<Rightarrow> bool"
  and py_eq_list :: "json list \<Rightarrow> json list \<Rightarrow> bool"
  and py_eq_items :: "(string \<times> json) list \<Rightarrow> (string \<times> json) list \<Rightarrow> bool"
where
  "py_eq JNull b = (b = JNull)"
| "py_eq (JBool x) b =
     (case b of JBool y \<Rightarrow> x = y | JInt j \<Rightarrow> j = (if x then 1 else 0) | _ \<Rightarrow> False)"
| "py_eq (JInt i) b =
     (case b of JInt j \<Rightarrow> i = j | JBool y \<Rightarrow> i = (if y then 1 else 0) | _ \<Rightarrow> False)"
| "py_eq (JStr s) b = (b = JStr s)"
| "py_eq (JList xs) b = (case b of JList ys \<Rightarrow> py_eq_list xs ys | _ \<Rightarrow> False)"
| "py_eq (JObj xs) b =
     (case b of JObj ys \<Rightarrow> length xs = length ys \<and> py_eq_items xs ys | _ \<Rightarrow> False)"
| "py_eq_list [] ys = (ys = [])"
| "py_eq_list (x # xs) ys =
     (case ys of [] \<Rightarrow> False | y # ys' \<Rightarrow> py_eq x y \<and> py_eq_list xs ys')"
| "py_eq_items [] ys = True"
| "py_eq_items (kv # xs) ys =
     ((case map_of ys (fst kv) of None \<Rightarrow> False | Some w \<Rightarrow> py_eq (snd kv) w)
      \<and> py_eq_items xs ys)"

text \<open>Decimal text of an integer, as \<^verbatim>\<open>str\<close> prints it.\<close>

definition digit_char :: "nat \<Rightarrow> char" where
  "digit_char n = char_of (48 + n)"

fun show_nat :: "nat \<Rightarrow> string" where
  "show_nat n =
     (if n < 10 then [digit_char n] else show_nat (n div 10) @ [digit_char (n mod 10)])"

declare show_nat.simps [simp del]

definition show_int :: "int \<Rightarrow> string" where
  "show_int i = (if i < 0 then CHR ''-'' # show_nat (nat (- i)) else show_nat (nat i))"

text \<open>
  \<^verbatim>\<open>str(x)\<close>. The text Python gives a list or a dictionary is its \<^verbatim>\<open>repr\<close>;
  it is left open as the parameter \<open>cs\<close>, so every result below holds whatever
  that text is.
\<close>

fun py_str :: "(json \<Rightarrow> string) \<Rightarrow> json \<Rightarrow> string" where
  "py_str cs JNull = ''None''"
| "py_str cs (JBool b) = (if b then ''True'' else ''False'')"
| "py_str cs (JInt i) = show_int i"
| "py_str cs (JStr s) = s"
| "py_str cs (JList xs) = cs (JList xs)"
| "py_str cs (JObj kvs) = cs (JObj kvs)"

text \<open>\<^verbatim>\<open>x[k]\<close> for a string key: only a dictionary can be read that way.\<close>

fun subscript :: "json \<Rightarrow> string \<Rightarrow> py_error + json" where
  "subscript (JObj kvs) k = (case map_of kvs k of None \<Rightarrow> Inl KeyError | Some v \<Rightarrow> Inr v)"
| "subscript _ k = Inl TypeError"

text \<open>\<^verbatim>\<open>x.get(k)\<close>: \<^verbatim>\<open>None\<close> for a missing key; only dictionaries have the method.\<close>

fun dict_get :: "json \<Rightarrow> string \<Rightarrow> py_error + json" where
  "dict_get (JObj kvs) k = (case map_of kvs k of None \<Rightarrow> Inr JNull | Some v \<Rightarrow> Inr v)"
| "dict_get _ k = Inl AttributeError"

text \<open>
  \<^verbatim>\<open>k in x\<close> for a string \<open>k\<close>: a key of a dictionary, an element of a
  list, a substring of a string.
\<close>

fun has_key :: "json \<Rightarrow> string \<Rightarrow> py_error + bool" where
  "has_key (JObj kvs) k = Inr (map_of kvs k \<noteq> None)"
| "has_key (JList xs) k = Inr (list_ex (\<lambda>x. py_eq x (JStr k)) xs)"
| "has_key (JStr s) k =
     Inr (list_ex (\<lambda>i. take (length k) (drop i s) = k) [0..<Suc (length s)])"
| "has_key _ k = Inl TypeError"

text \<open>\<^verbatim>\<open>x.items()\<close>.\<close>

fun items :: "json \<Rightarrow> py_error + (string \<times> json) list" where
  "items (JObj kvs) = Inr kvs"
| "items _ = Inl AttributeError"

text \<open>
  \<^verbatim>\<open>for v in x\<close>: a list yields its elements, a dictionary its keys, a string
  its characters; nothing else can be iterated.
\<close>

fun iterate :: "json \<Rightarrow> py_error + json list" where
  "iterate (JList xs) = Inr xs"
| "iterate (JObj kvs) = Inr (map (\<lambda>kv. JStr (fst kv)) kvs)"
| "iterate (JStr s) = Inr (map (\<lambda>c. JStr [c]) s)"
| "iterate _ = Inl TypeError"

section \<open>Domain names\<close>

text \<open>\<^verbatim>\<open>s.split(c)\<close> and \<^verbatim>\<open>c.join(xs)\<close>.\<close>

fun split_on :: "char \<Rightarrow> string \<Rightarrow> string list" where
  "split_on c [] = [[]]"
| "split_on c (x # xs) =
     (if x = c then [] # split_on c xs
      else (case split_on c xs of [] \<Rightarrow> [[x]] | w # ws \<Rightarrow> (x # w) # ws))"

fun join :: "string \<Rightarrow> string list \<Rightarrow> string" where
  "join s [] = []"
| "join s [x] = x"
| "join s (x # y # ys) = x @ s @ join s (y # ys)"

text \<open>\<^verbatim>\<open>xs[-2:]\<close>: the last two elements, or all of a shorter list.\<close>

definition last_two :: "'a list \<Rightarrow> 'a list" where
  "last_two xs = drop (length xs - 2) xs"

text \<open>\<^verbatim>\<open>'.'.join(domain.split('.')[-2:])\<close>, computed at the head of every provider call.\<close>

definition root_domain :: "string \<Rightarrow> string" where
  "root_domain domain = join ''.'' (last_two (split_on CHR ''.'' domain))"

text \<open>\<^verbatim>\<open>domain.split('.')[0]\<close>.\<close>

definition first_label :: "string \<Rightarrow> string" where
  "first_label domain = (case split_on CHR ''.'' domain of [] \<Rightarrow> [] | l # _ \<Rightarrow> l)"

text \<open>\<^verbatim>\<open>s.endswith('.')\<close>.\<close>

definition ends_with_dot :: "string \<Rightarrow> bool" where
  "ends_with_dot s = (s \<noteq> [] \<and> last s = CHR ''.'')"

section \<open>The provider\<close>

text \<open>
  A request is the endpoint below \<^verbatim>\<open>BASE_URL\<close> that it is posted to, with the
  values formatted into the URL, and the JSON body. The provider is a function
  from the requests made so far and the present request to a reply, so its
  answers may depend on everything written before. The state that the import
  threads is the list of requests made, oldest first.
\<close>

datatype endpoint =
    Retrieve string
  | RetrieveByNameType string string string
  | Create string
  | Edit string string

type_synonym request = "endpoint \<times> (string \<times> json) list"

datatype reply =
    Reply json
  | BadBody
  | NoReply

record world =
  API_KEY :: string
  SECRET_KEY :: string
  provider :: "request list \<Rightarrow> request \<Rightarrow> reply"
  container_str :: "json \<Rightarrow> string"

definition BASE_URL :: string where
  "BASE_URL = ''https://porkbun.com/api/json/v3''"

fun url :: "endpoint \<Rightarrow> string" where
  "url (Retrieve root) = BASE_URL @ ''/dns/retrieve/'' @ root"
| "url (RetrieveByNameType root record_type subdomain) =
     BASE_URL @ ''/dns/retrieveByNameType/'' @ root @ ''/'' @ record_type @ ''/'' @ subdomain"
| "url (Create root) = BASE_URL @ ''/dns/create/'' @ root"
| "url (Edit root record_id) = BASE_URL @ ''/dns/edit/'' @ root @ ''/'' @ record_id"

definition credentials :: "world \<Rightarrow> (string \<times> json) list" where
  "credentials w = [(''secretapikey'', JStr (SECRET_KEY w)), (''apikey'', JStr (API_KEY w))]"

definition prio_types :: "string list" where
  "prio_types = [''MX'', ''SRV'', ''NAPTR'']"

section \<open>Provider calls of the import tool\<close>

text \<open>
  Every function below takes the requests made so far and returns its result
  with the extended list. A result \<open>Inl e\<close> is the exception that leaves the
  function; what the function catches itself does not show.
\<close>

text \<open>The body of the \<^verbatim>\<open>try\<close> block of \<^verbatim>\<open>get_existing_records\<close>.\<close>

definition retrieved_records :: "json \<Rightarrow> py_error + json" where
  "retrieved_records result =
     (case subscript result ''status'' of
        Inl e \<Rightarrow> (if e = KeyError then Inr JNull else Inl e)
      | Inr st \<Rightarrow>
          (if py_eq st (JStr ''SUCCESS'') then
             (case has_key result ''records'' of
                Inl e \<Rightarrow> Inl e
              | Inr present \<Rightarrow>
                  (if present then
                     (case subscript result ''records'' of
                        Inl e \<Rightarrow> (if e = KeyError then Inr JNull else Inl e)
                      | Inr records \<Rightarrow> Inr records)
                   else Inr JNull))
           else Inr JNull))"

definition get_existing_records ::
  "world \<Rightarrow> string \<Rightarrow> bool \<Rightarrow> request list \<Rightarrow> (py_error + json) \<times> request list" where
  "get_existing_records w domain verbose log =
     (let rq = (Retrieve (root_domain domain), credentials w);
          log' = log @ [rq]
      in case provider w log rq of
           NoReply \<Rightarrow> (Inl RequestException, log')
         | BadBody \<Rightarrow> (if verbose then Inl JSONDecodeError else Inr JNull, log')
         | Reply result \<Rightarrow> (retrieved_records result, log'))"

text \<open>\<^verbatim>\<open>'@'\<close> for the root, the first label of the domain otherwise.\<close>

definition payload_name :: "string \<Rightarrow> string" where
  "payload_name domain =
     (if domain \<noteq> root_domain domain then first_label domain else ''@'')"

text \<open>The payload that \<^verbatim>\<open>create_record\<close> builds before it posts.\<close>

definition create_payload :: "world \<Rightarrow> string \<Rightarrow> json \<Rightarrow> py_error + (string \<times> json) list" where
  "create_payload w domain record =
     (case subscript record ''type'' of Inl e \<Rightarrow> Inl e | Inr t \<Rightarrow>
     (case subscript record ''content'' of Inl e \<Rightarrow> Inl e | Inr c \<Rightarrow>
     (case subscript record ''ttl'' of Inl e \<Rightarrow> Inl e | Inr ttl \<Rightarrow>
        (let payload = credentials w @
               [(''type'', t), (''content'', c), (''ttl'', ttl),
                (''name'', JStr (payload_name domain))]
         in if list_ex (\<lambda>x. py_eq t (JStr x)) prio_types then
              (case subscript record ''prio'' of
                 Inl e \<Rightarrow> Inl e
               | Inr p \<Rightarrow> Inr (payload @ [(''prio'', p)]))
            else Inr payload))))"

text \<open>What \<^verbatim>\<open>create_record\<close> does with the decoded reply before returning it.\<close>

definition create_report :: "json \<Rightarrow> json \<Rightarrow> bool \<Rightarrow> py_error + json" where
  "create_report result record verbose =
     (case subscript result ''status'' of Inl e \<Rightarrow> Inl e | Inr st \<Rightarrow>
        (if py_eq st (JStr ''ERROR'') then
           (case subscript record ''name'' of Inl e \<Rightarrow> Inl e | Inr _ \<Rightarrow>
              (if verbose then
                 (case has_key result ''errors'' of
                    Inl e \<Rightarrow> Inl e
                  | Inr present \<Rightarrow>
                      (if present then
                         (case subscript result ''errors'' of Inl e \<Rightarrow> Inl e | Inr errors \<Rightarrow>
                         (case iterate errors of Inl e \<Rightarrow> Inl e | Inr _ \<Rightarrow> Inr result))
                       else Inr result))
               else Inr result))
         else Inr result))"

definition create_record ::
  "world \<Rightarrow> string \<Rightarrow> json \<Rightarrow> bool \<Rightarrow> request list \<Rightarrow> (py_error + json) \<times> request list" where
  "create_record w domain record verbose log =
     (case create_payload w domain record of
        Inl e \<Rightarrow> (Inl e, log)
      | Inr payload \<Rightarrow>
          (let rq = (Create (root_domain domain), payload);
               log' = log @ [rq]
           in case provider w log rq of
                NoReply \<Rightarrow> (Inl RequestException, log')
              | BadBody \<Rightarrow> (Inl JSONDecodeError, log')
              | Reply result \<Rightarrow> (create_report result record verbose, log')))"

text \<open>The payload that \<^verbatim>\<open>update_record\<close> builds before it posts.\<close>

definition update_payload :: "world \<Rightarrow> string \<Rightarrow> json \<Rightarrow> py_error + (string \<times> json) list" where
  "update_payload w domain record =
     (case subscript record ''type'' of Inl e \<Rightarrow> Inl e | Inr t \<Rightarrow>
     (case subscript record ''content'' of Inl e \<Rightarrow> Inl e | Inr c \<Rightarrow>
     (case subscript record ''ttl'' of Inl e \<Rightarrow> Inl e | Inr ttl \<Rightarrow>
        (let payload = credentials w @
               [(''type'', t), (''content'', c), (''ttl'', ttl),
                (''name'', JStr (payload_name domain))]
         in case has_key record ''prio'' of
              Inl e \<Rightarrow> Inl e
            | Inr present \<Rightarrow>
                (if present then
                   (case subscript record ''prio'' of
                      Inl e \<Rightarrow> Inl e
                    | Inr p \<Rightarrow> Inr (payload @ [(''prio'', p)]))
                 else Inr payload)))))"

definition update_record ::
  "world \<Rightarrow> string \<Rightarrow> json \<Rightarrow> json \<Rightarrow> bool \<Rightarrow> request list
    \<Rightarrow> (py_error + json) \<times> request list" where
  "update_record w domain record_id record verbose log =
     (case update_payload w domain record of
        Inl e \<Rightarrow> (Inl e, log)
      | Inr payload \<Rightarrow>
          (let rq = (Edit (root_domain domain) (py_str (container_str w) record_id), payload);
               log' = log @ [rq]
           in case provider w log rq of
                NoReply \<Rightarrow> (Inl RequestException, log')
              | BadBody \<Rightarrow> (Inl JSONDecodeError, log')
              | Reply result \<Rightarrow> (Inr result, log')))"

text \<open>
  The loop of \<^verbatim>\<open>get_existing_record\<close> over the records of the reply: the first
  record the tests let through is returned, \<open>None\<close> when the loop runs out.
\<close>

fun find_match ::
  "(json \<Rightarrow> string) \<Rightarrow> string \<Rightarrow> json \<Rightarrow> json \<Rightarrow> json list \<Rightarrow> py_error + json option" where
  "find_match cs record_type content prio [] = Inr None"
| "find_match cs record_type content prio (record # rest) =
     (if truthy content then
        (case subscript record ''content'' of
           Inl e \<Rightarrow> Inl e
         | Inr c \<Rightarrow>
             (if py_eq c content then
                (if record_type \<in> set prio_types \<and> truthy prio then
                   (case subscript record ''prio'' of
                      Inl e \<Rightarrow> Inl e
                    | Inr p \<Rightarrow>
                        (if py_str cs p = py_str cs prio then Inr (Some record)
                         else find_match cs record_type content prio rest))
                 else Inr (Some record))
              else find_match cs record_type content prio rest))
      else find_match cs record_type content prio rest)"

text \<open>The body of the \<^verbatim>\<open>try\<close> block of \<^verbatim>\<open>get_existing_record\<close>, before its handlers.\<close>

definition match_in_result ::
  "(json \<Rightarrow> string) \<Rightarrow> string \<Rightarrow> json \<Rightarrow> json \<Rightarrow> json \<Rightarrow> py_error + json option" where
  "match_in_result cs record_type content prio result =
     (case subscript result ''status'' of Inl e \<Rightarrow> Inl e | Inr st \<Rightarrow>
        (if py_eq st (JStr ''SUCCESS'') then
           (case dict_get result ''records'' of Inl e \<Rightarrow> Inl e | Inr records \<Rightarrow>
              (if truthy records then
                 (case iterate records of
                    Inl e \<Rightarrow> Inl e
                  | Inr rs \<Rightarrow> find_match cs record_type content prio rs)
               else Inr None))
         else Inr None))"

definition get_existing_record ::
  "world \<Rightarrow> string \<Rightarrow> string \<Rightarrow> string \<Rightarrow> json \<Rightarrow> json \<Rightarrow> bool \<Rightarrow> request list
    \<Rightarrow> (py_error + json option) \<times> request list" where
  "get_existing_record w domain record_type name content prio verbose log =
     (let subdomain = (if name \<noteq> ''@'' then name else []);
          rq = (RetrieveByNameType (root_domain domain) record_type subdomain, credentials w);
          log' = log @ [rq]
      in case provider w log rq of
           NoReply \<Rightarrow> (Inl RequestException, log')
         | BadBody \<Rightarrow> (if verbose then Inl JSONDecodeError else Inr None, log')
         | Reply result \<Rightarrow>
             (case match_in_result (container_str w) record_type content prio result of
                Inl e \<Rightarrow> (if e = KeyError then Inr None else Inl e, log')
              | Inr found \<Rightarrow> (Inr found, log')))"

section \<open>Reconciliation\<close>

text \<open>
  How \<^verbatim>\<open>process_record\<close> ends: the three branches that print the record as
  skipped, updated or created (with the status the provider returned), the early
  return on a missing \<^verbatim>\<open>prio\<close>, and the two exception handlers.
\<close>

datatype outcome =
    Skipped
  | Updated json
  | Created json
  | PrioMissing
  | Errored py_error

definition record_data :: "string \<Rightarrow> string \<Rightarrow> json \<Rightarrow> json \<Rightarrow> json \<Rightarrow> json" where
  "record_data name record_type content ttl prio =
     JObj ([(''name'', JStr name), (''type'', JStr record_type),
            (''content'', content), (''ttl'', ttl)]
           @ (if prio \<noteq> JNull then [(''prio'', prio)] else []))"

text \<open>The branch \<^verbatim>\<open>if existing_record:\<close> ... \<^verbatim>\<open>if force:\<close> of \<^verbatim>\<open>process_record\<close>.\<close>

definition update_branch ::
  "world \<Rightarrow> string \<Rightarrow> json \<Rightarrow> json \<Rightarrow> bool \<Rightarrow> request list \<Rightarrow> outcome \<times> request list" where
  "update_branch w domain existing_record data verbose log =
     (case subscript existing_record ''id'' of
        Inl e \<Rightarrow> (Errored e, log)
      | Inr record_id \<Rightarrow>
          (case update_record w domain record_id data verbose log of
             (Inl e, log') \<Rightarrow> (Errored e, log')
           | (Inr result, log') \<Rightarrow>
               (case subscript result ''status'' of
                  Inl e \<Rightarrow> (Errored e, log')
                | Inr st \<Rightarrow> (Updated st, log'))))"

text \<open>The branch \<^verbatim>\<open>else:\<close> of \<^verbatim>\<open>if existing_record:\<close>.\<close>

definition create_branch ::
  "world \<Rightarrow> string \<Rightarrow> json \<Rightarrow> bool \<Rightarrow> request list \<Rightarrow> outcome \<times> request list" where
  "create_branch w domain data verbose log =
     (case create_record w domain data verbose log of
        (Inl e, log') \<Rightarrow> (Errored e, log')
      | (Inr result, log') \<Rightarrow>
          (case subscript result ''status'' of
             Inl e \<Rightarrow> (Errored e, log')
           | Inr st \<Rightarrow> (Created st, log')))"

definition process_record ::
  "world \<Rightarrow> string \<Rightarrow> string \<Rightarrow> string \<Rightarrow> json \<Rightarrow> bool \<Rightarrow> bool \<Rightarrow> request list
    \<Rightarrow> outcome \<times> request list" where
  "process_record w domain record_type name record force verbose log =
     (case subscript record ''content'' of Inl e \<Rightarrow> (Errored e, log) | Inr content \<Rightarrow>
     (case subscript record ''ttl'' of Inl e \<Rightarrow> (Errored e, log) | Inr ttl \<Rightarrow>
     (case dict_get record ''prio'' of Inl e \<Rightarrow> (Errored e, log) | Inr prio \<Rightarrow>
        (if record_type \<in> set prio_types \<and> prio = JNull then (PrioMissing, log)
         else
           (case get_existing_record w domain record_type name content prio verbose log of
              (Inl e, log1) \<Rightarrow> (Errored e, log1)
            | (Inr found, log1) \<Rightarrow>
                (let data = record_data name record_type content ttl prio
                 in case found of
                      None \<Rightarrow> create_branch w domain data verbose log1
                    | Some existing_record \<Rightarrow>
                        (if truthy existing_record then
                           (if force then update_branch w domain existing_record data verbose log1
                            else (Skipped, log1))
                         else create_branch w domain data verbose log1)))))))"

section \<open>The import run\<close>

text \<open>\<^verbatim>\<open>record.get('name', domain)\<close>\<close>

fun dict_get_default :: "json \<Rightarrow> string \<Rightarrow> json \<Rightarrow> py_error + json" where
  "dict_get_default (JObj kvs) k d = (case map_of kvs k of None \<Rightarrow> Inr d | Some v \<Rightarrow> Inr v)"
| "dict_get_default _ k d = Inl AttributeError"

text \<open>
  \<^verbatim>\<open>if not name.endswith('.'): name += '.'\<close>; only a string has the method.
\<close>

fun with_dot :: "json \<Rightarrow> py_error + string" where
  "with_dot (JStr n) = Inr (if ends_with_dot n then n else n @ ''.'')"
| "with_dot _ = Inl AttributeError"

definition effective_name :: "string \<Rightarrow> json \<Rightarrow> py_error + string" where
  "effective_name domain record =
     (case dict_get_default record ''name'' (JStr domain) of
        Inl e \<Rightarrow> Inl e
      | Inr name \<Rightarrow> with_dot name)"

text \<open>
  The four nested loops of \<^verbatim>\<open>import_dns_records\<close>, innermost first. The state is
  the list of outcomes reported so far and the requests made so far. An exception
  that leaves \<^verbatim>\<open>import_dns_records\<close> ends the run with the state reached.
\<close>

type_synonym run = "outcome list \<times> request list"

fun import_record_list ::
  "world \<Rightarrow> string \<Rightarrow> string \<Rightarrow> bool \<Rightarrow> bool \<Rightarrow> json list \<Rightarrow> run \<Rightarrow> py_error option \<times> run" where
  "import_record_list w domain record_type force verbose [] st = (None, st)"
| "import_record_list w domain record_type force verbose (record # rest) st =
     (case effective_name domain record of
        Inl e \<Rightarrow> (Some e, st)
      | Inr name \<Rightarrow>
          (case (if verbose then subscript record ''content'' else Inr JNull) of
             Inl e \<Rightarrow> (Some e, st)
           | Inr _ \<Rightarrow>
               (case process_record w domain record_type name record force verbose (snd st) of
                  (out, log') \<Rightarrow>
                    import_record_list w domain record_type force verbose rest
                      (fst st @ [out], log'))))"

fun import_types ::
  "world \<Rightarrow> string \<Rightarrow> bool \<Rightarrow> bool \<Rightarrow> (string \<times> json) list \<Rightarrow> run \<Rightarrow> py_error option \<times> run" where
  "import_types w domain force verbose [] st = (None, st)"
| "import_types w domain force verbose ((record_type, record_list) # rest) st =
     (case iterate record_list of
        Inl e \<Rightarrow> (Some e, st)
      | Inr rs \<Rightarrow>
          (case import_record_list w domain record_type force verbose rs st of
             (Some e, st') \<Rightarrow> (Some e, st')
           | (None, st') \<Rightarrow> import_types w domain force verbose rest st'))"

fun import_domains ::
  "world \<Rightarrow> bool \<Rightarrow> bool \<Rightarrow> (string \<times> json) list \<Rightarrow> run \<Rightarrow> py_error option \<times> run" where
  "import_domains w force verbose [] st = (None, st)"
| "import_domains w force verbose ((domain, records) # rest) st =
     (case items records of
        Inl e \<Rightarrow> (Some e, st)
      | Inr types \<Rightarrow>
          (case import_types w domain force verbose types st of
             (Some e, st') \<Rightarrow> (Some e, st')
           | (None, st') \<Rightarrow> import_domains w force verbose rest st'))"

fun import_documents ::
  "world \<Rightarrow> bool \<Rightarrow> bool \<Rightarrow> json list \<Rightarrow> run \<Rightarrow> py_error option \<times> run" where
  "import_documents w force verbose [] st = (None, st)"
| "import_documents w force verbose (domain_data # rest) st =
     (case items domain_data of
        Inl e \<Rightarrow> (Some e, st)
      | Inr domains \<Rightarrow>
          (case import_domains w force verbose domains st of
             (Some e, st') \<Rightarrow> (Some e, st')
           | (None, st') \<Rightarrow> import_documents w force verbose rest st'))"

definition import_dns_records ::
  "world \<Rightarrow> json \<Rightarrow> bool \<Rightarrow> bool \<Rightarrow> run \<Rightarrow> py_error option \<times> run" where
  "import_dns_records w new_records force verbose st =
     (case iterate new_records of
        Inl e \<Rightarrow> (Some e, st)
      | Inr ds \<Rightarrow> import_documents w force verbose ds st)"

text \<open>
  \<^verbatim>\<open>schema.json\<close> is read from the directory of the script and is not among the
  sources, so the file is a parameter: missing, not JSON, or a schema, which is
  the set of documents that \<^verbatim>\<open>jsonschema.validate\<close> accepts against it.
\<close>

datatype schema_file =
    SchemaMissing
  | SchemaUndecodable
  | Schema "json \<Rightarrow> bool"

fun validate_json_schema :: "schema_file \<Rightarrow> json \<Rightarrow> bool" where
  "validate_json_schema (Schema accepts) data = accepts data"
| "validate_json_schema _ data = False"

text \<open>The input is the parsed document, or \<open>None\<close> when the text is not JSON.\<close>

definition read_input :: "schema_file \<Rightarrow> json option \<Rightarrow> py_error + json" where
  "read_input sf input =
     (case input of
        None \<Rightarrow> Inl JSONDecodeError
      | Some data \<Rightarrow>
          (if \<not> validate_json_schema sf data then Inl ValueError else Inr data))"

text \<open>
  The import branch of the main block: the exit code, the outcomes reported and
  the requests made.
\<close>

definition main_import ::
  "world \<Rightarrow> schema_file \<Rightarrow> json option \<Rightarrow> bool \<Rightarrow> bool \<Rightarrow> request list
    \<Rightarrow> nat \<times> outcome list \<times> request list" where
  "main_import w sf input force verbose log =
     (case read_input sf input of
        Inl e \<Rightarrow> (1, [], log)
      | Inr new_records \<Rightarrow>
          (case import_dns_records w new_records force verbose ([], log) of
             (Some e, st) \<Rightarrow> (1, st)
           | (None, st) \<Rightarrow> (0, st)))"

text \<open>
  Modelled from the spec: the schema in \<^verbatim>\<open>schema.json\<close>, which is missing from
  the sources. The specification describes it as an ordered sequence of
  single-key mappings, one per domain, each value a mapping from record-type
  name to an ordered sequence of record objects that contain at least
  \<^verbatim>\<open>content\<close> and \<^verbatim>\<open>ttl\<close>.
\<close>

fun is_record_object :: "json \<Rightarrow> bool" where
  "is_record_object (JObj kvs) = (map_of kvs ''content'' \<noteq> None \<and> map_of kvs ''ttl'' \<noteq> None)"
| "is_record_object _ = False"

fun is_record_sequence :: "json \<Rightarrow> bool" where
  "is_record_sequence (JList rs) = list_all is_record_object rs"
| "is_record_sequence _ = False"

fun is_type_mapping :: "json \<Rightarrow> bool" where
  "is_type_mapping (JObj types) = list_all (\<lambda>kv. is_record_sequence (snd kv)) types"
| "is_type_mapping _ = False"

fun is_domain_entry :: "json \<Rightarrow> bool" where
  "is_domain_entry (JObj [(domain, records)]) = is_type_mapping records"
| "is_domain_entry _ = False"

fun spec_schema :: "json \<Rightarrow> bool" where
  "spec_schema (JList ds) = list_all is_domain_entry ds"
| "spec_schema _ = False"

section \<open>The vendor export of the import tool\<close>

text \<open>\<^verbatim>\<open>d[k] = v\<close> on a dictionary: a present key keeps its place.\<close>

fun dict_set :: "(string \<times> 'v) list \<Rightarrow> string \<Rightarrow> 'v \<Rightarrow> (string \<times> 'v) list" where
  "dict_set [] k v = [(k, v)]"
| "dict_set (kv # kvs) k v = (if fst kv = k then (k, v) # kvs else kv # dict_set kvs k v)"





section \<open>The export tool\<close>

text \<open>
  The resolver is a parameter. An answer is a list of records and the TTL of the
  answer; the other results are the exceptions that \<^verbatim>\<open>get_records\<close> catches.
  A record has its text (\<^verbatim>\<open>str(rdata)\<close>) and the attributes of its class.
\<close>

datatype attributes =
    MX_rdata string int
  | SRV_rdata string int int int
  | NAPTR_rdata string int int
  | Plain_rdata

datatype rdata = Rdata string attributes

datatype answer =
    Answers "rdata list" int
  | NXDOMAIN
  | NoAnswer
  | Failure

type_synonym resolver = "string \<Rightarrow> string \<Rightarrow> answer"

text \<open>
  The components of the tuples that \<^verbatim>\<open>get_records\<close> builds are strings and
  integers; in raw mode an entry is a string.
\<close>

datatype field = S string | N int

datatype entry = Raw string | Tup "field list"

type_synonym records = "(string \<times> entry list) list"

fun rdata_text :: "rdata \<Rightarrow> string" where
  "rdata_text (Rdata text attrs) = text"

fun field_str :: "field \<Rightarrow> string" where
  "field_str (S s) = s"
| "field_str (N i) = show_int i"

fun field_json :: "field \<Rightarrow> json" where
  "field_json (S s) = JStr s"
| "field_json (N i) = JInt i"

text \<open>A list comprehension whose element expression may raise.\<close>

fun map_err :: "('a \<Rightarrow> py_error + 'b) \<Rightarrow> 'a list \<Rightarrow> py_error + 'b list" where
  "map_err f [] = Inr []"
| "map_err f (x # xs) =
     (case f x of
        Inl e \<Rightarrow> Inl e
      | Inr y \<Rightarrow> (case map_err f xs of Inl e \<Rightarrow> Inl e | Inr ys \<Rightarrow> Inr (y # ys)))"

text \<open>
  The tuple built for one record of a priority-bearing type: \<open>exchange\<close>,
  \<open>preference\<close> for MX; \<open>target\<close>, \<open>priority\<close>, \<open>weight\<close>, \<open>port\<close> for SRV;
  \<open>replacement\<close>, \<open>order\<close>, \<open>preference\<close> otherwise. A record of another class
  lacks the first attribute read.
\<close>

fun typed_tuple :: "string \<Rightarrow> int \<Rightarrow> rdata \<Rightarrow> py_error + entry" where
  "typed_tuple record_type ttl (Rdata text attrs) =
     (if record_type = ''MX'' then
        (case attrs of
           MX_rdata exchange preference \<Rightarrow> Inr (Tup [S exchange, N preference, N ttl])
         | _ \<Rightarrow> Inl AttributeError)
      else if record_type = ''SRV'' then
        (case attrs of
           SRV_rdata target priority weight port \<Rightarrow>
             Inr (Tup [S target, N priority, N weight, N port, N ttl])
         | _ \<Rightarrow> Inl AttributeError)
      else
        (case attrs of
           NAPTR_rdata replacement order preference \<Rightarrow>
             Inr (Tup [S replacement, N order, N preference, N ttl])
         | _ \<Rightarrow> Inl AttributeError))"

definition answer_entries :: "bool \<Rightarrow> string \<Rightarrow> rdata list \<Rightarrow> int \<Rightarrow> py_error + entry list" where
  "answer_entries raw_output record_type rdatas ttl =
     (if raw_output then Inr (map (\<lambda>r. Raw (rdata_text r)) rdatas)
      else if record_type \<in> set prio_types then map_err (typed_tuple record_type ttl) rdatas
      else Inr (map (\<lambda>r. Tup [S (rdata_text r), N ttl]) rdatas))"

text \<open>The loop of \<^verbatim>\<open>get_records\<close> over the record types.\<close>

fun query_all :: "resolver \<Rightarrow> string \<Rightarrow> bool \<Rightarrow> string list \<Rightarrow> records \<Rightarrow> records" where
  "query_all resolver domain raw_output [] records = records"
| "query_all resolver domain raw_output (record_type # rest) records =
     query_all resolver domain raw_output rest
       (case resolver domain record_type of
          Answers rdatas ttl \<Rightarrow>
            (case answer_entries raw_output record_type rdatas ttl of
               Inl e \<Rightarrow> records
             | Inr entries \<Rightarrow> dict_set records record_type entries)
        | _ \<Rightarrow> records)"

text \<open>\<^verbatim>\<open>d.pop(k, None)\<close>\<close>

definition dict_pop :: "(string \<times> 'v) list \<Rightarrow> string \<Rightarrow> (string \<times> 'v) list" where
  "dict_pop kvs k = filter (\<lambda>kv. fst kv \<noteq> k) kvs"

definition get_records :: "resolver \<Rightarrow> string \<Rightarrow> string list \<Rightarrow> bool \<Rightarrow> bool \<Rightarrow> records" where
  "get_records resolver domain record_types raw_output keep_a_aaaa =
     (let records = query_all resolver domain raw_output record_types []
      in if map_of records ''CNAME'' \<noteq> None \<and> \<not> keep_a_aaaa then
           dict_pop (dict_pop records ''A'') ''AAAA''
         else records)"

text \<open>
  Unpacking a record into a fixed number of names: a tuple gives its components,
  a string its characters.
\<close>

fun components :: "entry \<Rightarrow> field list" where
  "components (Tup fs) = fs"
| "components (Raw s) = map (\<lambda>c. S [c]) s"

text \<open>\<^verbatim>\<open>s.strip('"')\<close>\<close>

definition strip_quotes :: "string \<Rightarrow> string" where
  "strip_quotes s =
     rev (dropWhile (\<lambda>c. c = CHR 0x22) (rev (dropWhile (\<lambda>c. c = CHR 0x22) s)))"

text \<open>The body of the inner loop of \<^verbatim>\<open>format_records\<close>: the dictionary for one record.\<close>

definition format_record :: "string \<Rightarrow> entry \<Rightarrow> py_error + json" where
  "format_record record_type record =
     (if record_type \<in> set prio_types then
        (if record_type = ''MX'' then
           (case components record of
              [content, prio, ttl] \<Rightarrow>
                Inr (JObj [(''content'', field_json content), (''ttl'', JStr (field_str ttl)),
                           (''prio'', JStr (field_str prio))])
            | _ \<Rightarrow> Inl ValueError)
         else if record_type = ''SRV'' then
           (case components record of
              [target, priority, weight, port, ttl] \<Rightarrow>
                Inr (JObj [(''content'',
                            JStr (field_str weight @ '' '' @ field_str port @ '' '' @ field_str target)),
                           (''ttl'', JStr (field_str ttl)),
                           (''prio'', JStr (field_str priority))])
            | _ \<Rightarrow> Inl ValueError)
         else
           (case components record of
              [replacement, order, preference, ttl] \<Rightarrow>
                Inr (JObj [(''content'', field_json replacement), (''ttl'', JStr (field_str ttl)),
                           (''order'', JStr (field_str order)),
                           (''preference'', JStr (field_str preference))])
            | _ \<Rightarrow> Inl ValueError))
      else if record_type = ''TXT'' then
        (case components record of
           [content, ttl] \<Rightarrow>
             (case content of
                S s \<Rightarrow> Inr (JObj [(''content'', JStr (strip_quotes s)), (''ttl'', JStr (field_str ttl))])
              | N i \<Rightarrow> Inl AttributeError)
         | _ \<Rightarrow> Inl ValueError)
      else
        (case components record of
           [content, ttl] \<Rightarrow>
             Inr (JObj [(''content'', field_json content), (''ttl'', JStr (field_str ttl))])
         | _ \<Rightarrow> Inl ValueError))"

text \<open>The outer loop of \<^verbatim>\<open>format_records\<close>, over the items of \<open>records\<close>.\<close>

fun format_types :: "records \<Rightarrow> (string \<times> json) list \<Rightarrow> py_error + (string \<times> json) list" where
  "format_types [] formatted = Inr formatted"
| "format_types ((record_type, record_list) # rest) formatted =
     (case map_err (format_record record_type) record_list of
        Inl e \<Rightarrow> Inl e
      | Inr entries \<Rightarrow> format_types rest (dict_set formatted record_type (JList entries)))"

definition format_records :: "string \<Rightarrow> records \<Rightarrow> py_error + json" where
  "format_records domain records =
     (case format_types records [] of
        Inl e \<Rightarrow> Inl e
      | Inr formatted \<Rightarrow> Inr (JObj [(domain, JObj formatted)]))"

section \<open>Requests and candidates\<close>

text \<open>The requests that change the provider's records.\<close>

fun is_write :: "request \<Rightarrow> bool" where
  "is_write (Create root, payload) = True"
| "is_write (Edit root record_id, payload) = True"
| "is_write _ = False"

text \<open>The root domain that a request addresses.\<close>

fun addressed :: "request \<Rightarrow> string" where
  "addressed (Retrieve root, payload) = root"
| "addressed (RetrieveByNameType root record_type subdomain, payload) = root"
| "addressed (Create root, payload) = root"
| "addressed (Edit root record_id, payload) = root"

text \<open>The lookup for a record, and the two writes with the fields they carry.\<close>

definition lookup_request :: "world \<Rightarrow> string \<Rightarrow> string \<Rightarrow> string \<Rightarrow> request" where
  "lookup_request w domain record_type name =
     (RetrieveByNameType (root_domain domain) record_type (if name \<noteq> ''@'' then name else []),
      credentials w)"

definition record_fields :: "string \<Rightarrow> string \<Rightarrow> json \<Rightarrow> json \<Rightarrow> (string \<times> json) list" where
  "record_fields domain record_type content ttl =
     [(''type'', JStr record_type), (''content'', content), (''ttl'', ttl),
      (''name'', JStr (payload_name domain))]"

definition create_request :: "world \<Rightarrow> string \<Rightarrow> string \<Rightarrow> json \<Rightarrow> json \<Rightarrow> json \<Rightarrow> request" where
  "create_request w domain record_type content ttl prio =
     (Create (root_domain domain),
      credentials w @ record_fields domain record_type content ttl
        @ (if record_type \<in> set prio_types then [(''prio'', prio)] else []))"

definition edit_request ::
  "world \<Rightarrow> string \<Rightarrow> json \<Rightarrow> string \<Rightarrow> json \<Rightarrow> json \<Rightarrow> json \<Rightarrow> request" where
  "edit_request w domain record_id record_type content ttl prio =
     (Edit (root_domain domain) (py_str (container_str w) record_id),
      credentials w @ record_fields domain record_type content ttl
        @ (if prio \<noteq> JNull then [(''prio'', prio)] else []))"

text \<open>
  The match as the specification words it: equal content, and for a
  priority-bearing type equal text of the priority.
\<close>

definition spec_matches :: "(json \<Rightarrow> string) \<Rightarrow> string \<Rightarrow> json \<Rightarrow> json \<Rightarrow> json \<Rightarrow> bool" where
  "spec_matches cs record_type content prio r =
     ((case subscript r ''content'' of Inl e \<Rightarrow> False | Inr c \<Rightarrow> py_eq c content)
      \<and> (if record_type \<in> set prio_types then
           (case subscript r ''prio'' of
              Inl e \<Rightarrow> False
            | Inr p \<Rightarrow> py_str cs p = py_str cs prio)
         else True))"

text \<open>A reply that reports success with the given records.\<close>

definition success_reply :: "json list \<Rightarrow> reply" where
  "success_reply rs = Reply (JObj [(''status'', JStr ''SUCCESS''), (''records'', JList rs)])"

section \<open>An in-memory provider for the examples\<close>

text \<open>
  The provider of the examples keeps what was created: it answers a retrieval
  with the records created before under the same root (and of the same type, for
  a lookup by name and type), whatever name they were filed under, numbered from
  1 in the order of creation, and it accepts every write.
\<close>

fun created :: "string \<Rightarrow> nat \<Rightarrow> request list \<Rightarrow> json list" where
  "created root n [] = []"
| "created root n ((Create r, payload) # log) =
     (if r = root then
        [JObj ((''id'', JInt (int n))
               # filter (\<lambda>kv. fst kv \<noteq> ''secretapikey'' \<and> fst kv \<noteq> ''apikey'') payload)]
      else [])
     @ created root (Suc n) log"
| "created root n (rq # log) = created root n log"

fun memory_provider :: "request list \<Rightarrow> request \<Rightarrow> reply" where
  "memory_provider log (Retrieve root, payload) = success_reply (created root 1 log)"
| "memory_provider log (RetrieveByNameType root record_type subdomain, payload) =
     success_reply
       (filter (\<lambda>r. subscript r ''type'' = Inr (JStr record_type)) (created root 1 log))"
| "memory_provider log (Create root, payload) = Reply (JObj [(''status'', JStr ''SUCCESS'')])"
| "memory_provider log (Edit root record_id, payload) =
     Reply (JObj [(''status'', JStr ''SUCCESS'')])"

definition memory_world :: world where
  "memory_world =
     \<lparr>API_KEY = ''pk1_example'', SECRET_KEY = ''sk1_example'',
      provider = memory_provider, container_str = (\<lambda>v. [])\<rparr>"

section \<open>Example inputs\<close>

text \<open>
  The record of the specification's example, an address record for
  \<^verbatim>\<open>example.com\<close>; the lookup that the import makes for it; the requests of a
  first import of it into the empty in-memory provider; and the record that the
  provider then holds.
\<close>

definition a_record :: json where
  "a_record = JObj [(''content'', JStr ''192.0.2.1''), (''ttl'', JStr ''300'')]"

definition a_lookup :: request where
  "a_lookup =
     (RetrieveByNameType ''example.com'' ''A'' ''example.com.'',
      [(''secretapikey'', JStr ''sk1_example''), (''apikey'', JStr ''pk1_example'')])"

definition a_create :: request where
  "a_create =
     (Create ''example.com'',
      [(''secretapikey'', JStr ''sk1_example''), (''apikey'', JStr ''pk1_example''),
       (''type'', JStr ''A''), (''content'', JStr ''192.0.2.1''), (''ttl'', JStr ''300''),
       (''name'', JStr ''@'')])"

definition a_stored :: json where
  "a_stored =
     JObj [(''id'', JInt 1), (''type'', JStr ''A''), (''content'', JStr ''192.0.2.1''),
           (''ttl'', JStr ''300''), (''name'', JStr ''@'')]"

text \<open>A mail record without \<^verbatim>\<open>prio\<close>, and one with it.\<close>

definition mx_without_prio :: json where
  "mx_without_prio = JObj [(''content'', JStr ''mail.example.com''), (''ttl'', JStr ''300'')]"

definition mx_record :: json where
  "mx_record =
     JObj [(''content'', JStr ''mail.example.com''), (''ttl'', JStr ''300''),
           (''prio'', JStr ''10'')]"

text \<open>The mail record with the priority 0, an integer.\<close>

definition mx_prio_zero :: json where
  "mx_prio_zero =
     JObj [(''content'', JStr ''mail.example.com''), (''ttl'', JStr ''300''),
           (''prio'', JInt 0)]"

text \<open>A document in which the value of a domain is a list instead of a mapping.\<close>

definition list_valued_document :: json where
  "list_valued_document = JList [JObj [(''example.com'', JList [a_record])]]"

text \<open>
  The mail record as the in-memory provider holds it after a first import, and
  the create request of that import.
\<close>

definition mx_create :: request where
  "mx_create =
     (Create ''example.com'',
      [(''secretapikey'', JStr ''sk1_example''), (''apikey'', JStr ''pk1_example''),
       (''type'', JStr ''MX''), (''content'', JStr ''mail.example.com''), (''ttl'', JStr ''300''),
       (''name'', JStr ''@''), (''prio'', JStr ''10'')])"

definition mx_stored :: json where
  "mx_stored =
     JObj [(''id'', JInt 1), (''type'', JStr ''MX''), (''content'', JStr ''mail.example.com''),
           (''ttl'', JStr ''300''), (''name'', JStr ''@''), (''prio'', JStr ''10'')]"

text \<open>
  A document whose record names a subdomain of its domain, and a document whose
  domain is itself a subdomain.
\<close>

definition www_record :: json where
  "www_record =
     JObj [(''name'', JStr ''www''), (''content'', JStr ''192.0.2.1''), (''ttl'', JStr ''300'')]"

definition www_document :: json where
  "www_document = JList [JObj [(''example.com'', JObj [(''A'', JList [www_record])])]]"

definition sub_document :: json where
  "sub_document = JList [JObj [(''www.example.com'', JObj [(''A'', JList [a_record])])]]"

section \<open>Field templates of the export\<close>

text \<open>The keys of a formatted record, by record type, in the order they are written.\<close>

definition template :: "string \<Rightarrow> string list" where
  "template record_type =
     (if record_type = ''MX'' \<or> record_type = ''SRV'' then [''content'', ''ttl'', ''prio'']
      else if record_type = ''NAPTR'' then [''content'', ''ttl'', ''order'', ''preference'']
      else [''content'', ''ttl''])"

definition has_template :: "string \<Rightarrow> json \<Rightarrow> bool" where
  "has_template record_type e =
     (case e of
        JObj kvs \<Rightarrow> map fst kvs = template record_type \<and> list_all (\<lambda>kv. snd kv \<noteq> JNull) kvs
      | _ \<Rightarrow> False)"

text \<open>
  A list of formatted records, one for each entry of \<open>entries\<close>, each with the
  template of the type.
\<close>

definition formatted_as :: "string \<Rightarrow> entry list \<Rightarrow> json \<Rightarrow> bool" where
  "formatted_as record_type entries v =
     (case v of
        JList js \<Rightarrow> length js = length entries \<and> list_all (has_template record_type) js
      | _ \<Rightarrow> False)"

text \<open>
  The shape of the tuples that \<^verbatim>\<open>get_records\<close> builds outside raw mode: three
  components for MX, five for SRV, four for NAPTR, two otherwise, the first a
  string.
\<close>

definition typed_entry :: "string \<Rightarrow> entry \<Rightarrow> bool" where
  "typed_entry record_type e =
     (case e of
        Raw s \<Rightarrow> False
      | Tup fs \<Rightarrow>
          length fs = (if record_type = ''MX'' then 3 else if record_type = ''SRV'' then 5
                       else if record_type = ''NAPTR'' then 4 else 2)
          \<and> (case fs of [] \<Rightarrow> False | f # _ \<Rightarrow> (case f of S s \<Rightarrow> True | N i \<Rightarrow> False)))"

text \<open>The records that \<^verbatim>\<open>get_records\<close> returns: distinct types, tuples of the type's shape.\<close>

definition typed_records :: "records \<Rightarrow> bool" where
  "typed_records records =
     (distinct (map fst records)
      \<and> list_all (\<lambda>kv. list_all (typed_entry (fst kv)) (snd kv)) records)"

text \<open>
  A resolver for the examples: the domain has a canonical name, an address, a
  mail exchange and a pointer of type NAPTR, and nothing else.
\<close>

definition example_resolver :: resolver where
  "example_resolver domain record_type =
     (if record_type = ''CNAME'' then Answers [Rdata ''target.example.net.'' Plain_rdata] 300
      else if record_type = ''A'' then Answers [Rdata ''192.0.2.1'' Plain_rdata] 300
      else if record_type = ''MX'' then
        Answers [Rdata ''10 mail.example.com.'' (MX_rdata ''mail.example.com.'' 10)] 300
      else if record_type = ''NAPTR'' then
        Answers [Rdata ''100 10 \"u\" \"E2U+sip\" \"\" sip.example.com.''
                   (NAPTR_rdata ''sip.example.com.'' 100 10)] 300
      else NoAnswer)"

text \<open>
  A document with the address record, and a document with a text record whose
  content is the empty string; the lookup and the create request that the import
  makes for the text record, and the record that the in-memory provider then
  holds.
\<close>

definition a_document :: json where
  "a_document = JList [JObj [(''example.com'', JObj [(''A'', JList [a_record])])]]"

definition empty_txt_document :: json where
  "empty_txt_document =
     JList [JObj [(''example.com'',
       JObj [(''TXT'', JList [JObj [(''content'', JStr []), (''ttl'', JStr ''300'')]])])]]"

definition txt_lookup :: request where
  "txt_lookup =
     (RetrieveByNameType ''example.com'' ''TXT'' ''example.com.'',
      [(''secretapikey'', JStr ''sk1_example''), (''apikey'', JStr ''pk1_example'')])"

definition txt_create :: request where
  "txt_create =
     (Create ''example.com'',
      [(''secretapikey'', JStr ''sk1_example''), (''apikey'', JStr ''pk1_example''),
       (''type'', JStr ''TXT''), (''content'', JStr []), (''ttl'', JStr ''300''),
       (''name'', JStr ''@'')])"

definition txt_stored :: json where
  "txt_stored =
     JObj [(''id'', JInt 1), (''type'', JStr ''TXT''), (''content'', JStr []),
           (''ttl'', JStr ''300''), (''name'', JStr ''@'')]"







text \<open>
  A second provider for the examples. It answers a lookup by name and type with
  the records created before under the same root, of that type and filed under
  that name (\<^verbatim>\<open>@\<close> for the empty subdomain), and is the in-memory provider
  otherwise.
\<close>

fun naming_provider :: "request list \<Rightarrow> request \<Rightarrow> reply" where
  "naming_provider log (RetrieveByNameType root record_type subdomain, payload) =
     success_reply
       (filter (\<lambda>r. subscript r ''type'' = Inr (JStr record_type)
                  \<and> subscript r ''name'' = Inr (JStr (if subdomain = [] then ''@'' else subdomain)))
          (created root 1 log))"
| "naming_provider log rq = memory_provider log rq"

definition naming_world :: world where
  "naming_world =
     \<lparr>API_KEY = ''pk1_example'', SECRET_KEY = ''sk1_example'',
      provider = naming_provider, container_str = (\<lambda>v. [])\<rparr>"

section \<open>Reconciliation of one record\<close>

lemma subscript_truthy: "subscript r k = Inr v \<Longrightarrow> truthy r"
  by (cases r) (auto split: option.splits)

lemma find_match_Some:
  "find_match cs record_type content prio rs = Inr (Some r) \<Longrightarrow> r \<in> set rs \<and> truthy r"
  by (induction rs) (auto split: if_splits sum.splits dest: subscript_truthy)

lemma match_in_result_Some:
  "match_in_result cs record_type content prio result = Inr (Some r) \<Longrightarrow> truthy r"
  by (auto simp: match_in_result_def split: sum.splits if_splits dest: find_match_Some)

lemma get_existing_record_log:
  "snd (get_existing_record w domain record_type name content prio verbose log) =
     log @ [lookup_request w domain record_type name]"
  by (auto simp: get_existing_record_def lookup_request_def Let_def split: reply.splits sum.splits)

lemma get_existing_record_Some:
  "get_existing_record w domain record_type name content prio verbose log = (Inr (Some r), log1)
    \<Longrightarrow> truthy r"
  by (auto simp: get_existing_record_def Let_def split: reply.splits sum.splits if_splits
      dest: match_in_result_Some)

lemma record_data_subscripts:
  "subscript (record_data name record_type content ttl prio) ''type'' = Inr (JStr record_type)"
  "subscript (record_data name record_type content ttl prio) ''content'' = Inr content"
  "subscript (record_data name record_type content ttl prio) ''ttl'' = Inr ttl"
  "subscript (record_data name record_type content ttl prio) ''name'' = Inr (JStr name)"
  "prio \<noteq> JNull \<Longrightarrow> subscript (record_data name record_type content ttl prio) ''prio'' = Inr prio"
  "has_key (record_data name record_type content ttl prio) ''prio'' = Inr (prio \<noteq> JNull)"
  by (simp_all add: record_data_def)

lemma create_payload_record_data:
  "record_type \<in> set prio_types \<longrightarrow> prio \<noteq> JNull \<Longrightarrow>
   create_payload w domain (record_data name record_type content ttl prio) =
     Inr (credentials w @ record_fields domain record_type content ttl
          @ (if record_type \<in> set prio_types then [(''prio'', prio)] else []))"
  by (auto simp: create_payload_def record_data_subscripts list_ex_iff record_fields_def Let_def)

lemma update_payload_record_data:
  "update_payload w domain (record_data name record_type content ttl prio) =
     Inr (credentials w @ record_fields domain record_type content ttl
          @ (if prio \<noteq> JNull then [(''prio'', prio)] else []))"
  by (simp add: update_payload_def record_data_subscripts record_fields_def)

lemma create_branch_log:
  "record_type \<in> set prio_types \<longrightarrow> prio \<noteq> JNull \<Longrightarrow>
   snd (create_branch w domain (record_data name record_type content ttl prio) verbose log) =
     log @ [create_request w domain record_type content ttl prio]"
  by (auto simp: create_branch_def create_record_def create_payload_record_data
      create_request_def Let_def split: reply.splits sum.splits prod.splits)

lemma update_branch_log:
  "subscript existing_record ''id'' = Inr record_id \<Longrightarrow>
   snd (update_branch w domain existing_record
         (record_data name record_type content ttl prio) verbose log) =
     log @ [edit_request w domain record_id record_type content ttl prio]"
  by (auto simp: update_branch_def update_record_def update_payload_record_data
      edit_request_def Let_def split: reply.splits sum.splits prod.splits)

lemma update_branch_no_id:
  "subscript existing_record ''id'' = Inl e \<Longrightarrow>
   update_branch w domain existing_record data verbose log = (Errored e, log)"
  by (simp add: update_branch_def)

lemma lookup_not_write: "\<not> is_write (lookup_request w domain record_type name)"
  by (simp add: lookup_request_def)

lemma create_branch_calls:
  "\<exists>calls. snd (create_branch w domain data verbose log) = log @ calls \<and> length calls \<le> 1"
  by (auto simp: create_branch_def create_record_def Let_def
      split: reply.splits sum.splits prod.splits)

lemma update_branch_calls:
  "\<exists>calls. snd (update_branch w domain existing_record data verbose log) = log @ calls
     \<and> length calls \<le> 1"
  by (auto simp: update_branch_def update_record_def Let_def
      split: reply.splits sum.splits prod.splits)

text \<open>
  With the required fields present, \<^verbatim>\<open>process_record\<close> is decided by the
  lookup alone.
\<close>

lemma process_record_fields:
  assumes "subscript record ''content'' = Inr content"
    and "subscript record ''ttl'' = Inr ttl"
    and "dict_get record ''prio'' = Inr prio"
    and "record_type \<in> set prio_types \<longrightarrow> prio \<noteq> JNull"
    and "get_existing_record w domain record_type name content prio verbose log = (found, log1)"
  shows "process_record w domain record_type name record force verbose log =
     (case found of
        Inl e \<Rightarrow> (Errored e, log1)
      | Inr None \<Rightarrow>
          create_branch w domain (record_data name record_type content ttl prio) verbose log1
      | Inr (Some existing_record) \<Rightarrow>
          (if force then
             update_branch w domain existing_record
               (record_data name record_type content ttl prio) verbose log1
           else (Skipped, log1)))"
  using assms get_existing_record_Some [of w domain record_type name content prio verbose log]
  by (auto simp: process_record_def split: sum.splits option.splits)

lemma process_record_calls:
  "\<exists>calls. snd (process_record w domain record_type name record force verbose log) = log @ calls
     \<and> length (filter is_write calls) \<le> 1"
proof -
  let ?lk = "lookup_request w domain record_type name"
  have branch: "\<exists>calls. snd (create_branch w domain data verbose (log @ [?lk])) = log @ calls
      \<and> length (filter is_write calls) \<le> 1" for data
  proof -
    obtain cs where "snd (create_branch w domain data verbose (log @ [?lk])) = (log @ [?lk]) @ cs"
      and "length cs \<le> 1"
      using create_branch_calls by blast
    then have "snd (create_branch w domain data verbose (log @ [?lk])) = log @ (?lk # cs)"
      and "length (filter is_write (?lk # cs)) \<le> 1"
      using lookup_not_write [of w domain record_type name]
      by (auto intro: le_trans [OF length_filter_le])
    then show ?thesis by blast
  qed
  have ubranch: "\<exists>calls. snd (update_branch w domain er data verbose (log @ [?lk])) = log @ calls
      \<and> length (filter is_write calls) \<le> 1" for er data
  proof -
    obtain cs where "snd (update_branch w domain er data verbose (log @ [?lk])) = (log @ [?lk]) @ cs"
      and "length cs \<le> 1"
      using update_branch_calls by blast
    then have "snd (update_branch w domain er data verbose (log @ [?lk])) = log @ (?lk # cs)"
      and "length (filter is_write (?lk # cs)) \<le> 1"
      using lookup_not_write [of w domain record_type name]
      by (auto intro: le_trans [OF length_filter_le])
    then show ?thesis by blast
  qed
  have lk: "\<exists>calls. log @ [?lk] = log @ calls \<and> length (filter is_write calls) \<le> 1"
    using lookup_not_write [of w domain record_type name] by simp
  show ?thesis
  proof (cases "subscript record ''content''")
    case (Inl e)
    then show ?thesis by (simp add: process_record_def)
  next
    case content: (Inr content)
    show ?thesis
    proof (cases "subscript record ''ttl''")
      case (Inl e)
      then show ?thesis using content by (simp add: process_record_def)
    next
      case ttl: (Inr ttl)
      show ?thesis
      proof (cases "dict_get record ''prio''")
        case (Inl e)
        then show ?thesis using content ttl by (simp add: process_record_def)
      next
        case prio: (Inr prio)
        obtain found log1 where
          g: "get_existing_record w domain record_type name content prio verbose log = (found, log1)"
          by (cases "get_existing_record w domain record_type name content prio verbose log")
        then have log1: "log1 = log @ [?lk]"
          using get_existing_record_log [of w domain record_type name content prio verbose log]
          by simp
        show ?thesis
        proof (cases "record_type \<in> set prio_types \<and> prio = JNull")
          case True
          then show ?thesis using content ttl prio by (simp add: process_record_def)
        next
          case False
          then have eq: "process_record w domain record_type name record force verbose log =
            (case found of
               Inl e \<Rightarrow> (Errored e, log1)
             | Inr None \<Rightarrow>
                 create_branch w domain (record_data name record_type content ttl prio) verbose log1
             | Inr (Some existing_record) \<Rightarrow>
                 (if force then
                    update_branch w domain existing_record
                      (record_data name record_type content ttl prio) verbose log1
                  else (Skipped, log1)))"
            using process_record_fields [OF content ttl prio _ g] by blast
          show ?thesis
          proof (cases found)
            case (Inl e)
            then show ?thesis unfolding eq log1 using lk by simp
          next
            case (Inr opt)
            show ?thesis
            proof (cases opt)
              case None
              then show ?thesis unfolding eq log1 Inr using branch by simp
            next
              case (Some er)
              then show ?thesis unfolding eq log1 Inr using ubranch lk by (cases force) simp_all
            qed
          qed
        qed
      qed
    qed
  qed
qed

text \<open>
  C1. For a record with \<^verbatim>\<open>content\<close> and \<^verbatim>\<open>ttl\<close>, and with \<^verbatim>\<open>prio\<close> when the
  type is MX, SRV or NAPTR, reconciliation makes the lookup and at most one write
  after it. When the lookup finds a record and \<open>force\<close> is unset, the record is
  skipped and nothing is written. When the lookup finds a record that has an
  \<^verbatim>\<open>id\<close> and \<open>force\<close> is set, the one request after the lookup is an edit
  addressed to that id, whose payload carries the content, the ttl and the prio
  of the input. When the lookup finds nothing, the one request after the lookup
  is a create.
\<close>

theorem process_record_one_write:
  assumes "subscript record ''content'' = Inr content"
    and "subscript record ''ttl'' = Inr ttl"
    and "dict_get record ''prio'' = Inr prio"
    and "record_type \<in> set prio_types \<longrightarrow> prio \<noteq> JNull"
    and "get_existing_record w domain record_type name content prio verbose log = (found, log1)"
  shows "(\<exists>calls. snd (process_record w domain record_type name record force verbose log)
             = log @ calls \<and> length (filter is_write calls) \<le> 1)
    \<and> log1 = log @ [lookup_request w domain record_type name]
    \<and> (\<forall>existing. found = Inr (Some existing) \<and> \<not> force \<longrightarrow>
          process_record w domain record_type name record force verbose log = (Skipped, log1))
    \<and> (\<forall>existing record_id.
          found = Inr (Some existing) \<and> force \<and> subscript existing ''id'' = Inr record_id \<longrightarrow>
          snd (process_record w domain record_type name record force verbose log) =
            log1 @ [(Edit (root_domain domain) (py_str (container_str w) record_id),
                     credentials w
                     @ [(''type'', JStr record_type), (''content'', content), (''ttl'', ttl),
                        (''name'', JStr (payload_name domain))]
                     @ (if prio \<noteq> JNull then [(''prio'', prio)] else []))])
    \<and> (found = Inr None \<longrightarrow>
          (\<exists>payload. snd (process_record w domain record_type name record force verbose log) =
             log1 @ [(Create (root_domain domain), payload)]))"
proof -
  note eq = process_record_fields [OF assms]
  have "log1 = log @ [lookup_request w domain record_type name]"
    using get_existing_record_log [of w domain record_type name content prio verbose log] assms(5)
    by simp
  moreover have "\<forall>existing. found = Inr (Some existing) \<and> \<not> force \<longrightarrow>
      process_record w domain record_type name record force verbose log = (Skipped, log1)"
    by (simp add: eq)
  moreover have "\<forall>existing record_id.
      found = Inr (Some existing) \<and> force \<and> subscript existing ''id'' = Inr record_id \<longrightarrow>
      snd (process_record w domain record_type name record force verbose log) =
        log1 @ [(Edit (root_domain domain) (py_str (container_str w) record_id),
                 credentials w
                 @ [(''type'', JStr record_type), (''content'', content), (''ttl'', ttl),
                    (''name'', JStr (payload_name domain))]
                 @ (if prio \<noteq> JNull then [(''prio'', prio)] else []))]"
    by (simp add: eq update_branch_log edit_request_def record_fields_def)
  moreover have "found = Inr None \<longrightarrow>
      (\<exists>payload. snd (process_record w domain record_type name record force verbose log) =
         log1 @ [(Create (root_domain domain), payload)])"
    using assms(4) by (simp add: eq create_branch_log create_request_def)
  ultimately show ?thesis
    using process_record_calls [of w domain record_type name "record" force verbose log]
    by blast
qed

theorem process_record_one_write_witness:
  "get_existing_record memory_world ''example.com'' ''A'' ''example.com.''
       (JStr ''192.0.2.1'') JNull False [a_lookup, a_create]
     = (Inr (Some a_stored), [a_lookup, a_create] @ [a_lookup])
   \<and> subscript a_stored ''id'' = Inr (JInt 1)
   \<and> process_record memory_world ''example.com'' ''A'' ''example.com.'' a_record False False
       [a_lookup, a_create]
     = (Skipped, [a_lookup, a_create, a_lookup])
   \<and> snd (process_record memory_world ''example.com'' ''A'' ''example.com.'' a_record True False
       [a_lookup, a_create])
     = [a_lookup, a_create, a_lookup,
        (Edit ''example.com'' ''1'',
         [(''secretapikey'', JStr ''sk1_example''), (''apikey'', JStr ''pk1_example''),
          (''type'', JStr ''A''), (''content'', JStr ''192.0.2.1''), (''ttl'', JStr ''300''),
          (''name'', JStr ''@'')])]
   \<and> get_existing_record memory_world ''example.com'' ''A'' ''example.com.''
       (JStr ''192.0.2.1'') JNull False []
     = (Inr None, [a_lookup])
   \<and> (\<exists>payload. snd (process_record memory_world ''example.com'' ''A'' ''example.com.''
         a_record False False []) = [a_lookup, (Create ''example.com'', payload)])"
proof -
  have c: "subscript a_record ''content'' = Inr (JStr ''192.0.2.1'')"
    and t: "subscript a_record ''ttl'' = Inr (JStr ''300'')"
    and p: "dict_get a_record ''prio'' = Inr JNull"
    and q: "''A'' \<in> set prio_types \<longrightarrow> JNull \<noteq> JNull"
    by (simp_all add: a_record_def prio_types_def)
  have g1: "get_existing_record memory_world ''example.com'' ''A'' ''example.com.''
       (JStr ''192.0.2.1'') JNull False [a_lookup, a_create]
     = (Inr (Some a_stored), [a_lookup, a_create] @ [a_lookup])"
    by code_simp
  have g0: "get_existing_record memory_world ''example.com'' ''A'' ''example.com.''
       (JStr ''192.0.2.1'') JNull False [] = (Inr None, [] @ [a_lookup])"
    by code_simp
  have i: "subscript a_stored ''id'' = Inr (JInt 1)"
    by (simp add: a_stored_def)
  have root: "root_domain ''example.com'' = ''example.com''"
    and nm: "payload_name ''example.com'' = ''@''"
    and one: "show_int 1 = ''1''"
    and creds: "credentials memory_world =
      [(''secretapikey'', JStr ''sk1_example''), (''apikey'', JStr ''pk1_example'')]"
    by code_simp+
  note skip = process_record_one_write [OF c t p q g1, where force = False]
  note edit = process_record_one_write [OF c t p q g1, where force = True]
  note new = process_record_one_write [OF c t p q g0, where force = False]
  have "process_record memory_world ''example.com'' ''A'' ''example.com.'' a_record False False
       [a_lookup, a_create] = (Skipped, [a_lookup, a_create, a_lookup])"
    using skip by simp
  moreover have "snd (process_record memory_world ''example.com'' ''A'' ''example.com.''
       a_record True False [a_lookup, a_create])
     = [a_lookup, a_create, a_lookup,
        (Edit ''example.com'' ''1'',
         [(''secretapikey'', JStr ''sk1_example''), (''apikey'', JStr ''pk1_example''),
          (''type'', JStr ''A''), (''content'', JStr ''192.0.2.1''), (''ttl'', JStr ''300''),
          (''name'', JStr ''@'')])]"
    using edit i by (simp add: root nm one creds)
  moreover have "\<exists>payload. snd (process_record memory_world ''example.com'' ''A''
       ''example.com.'' a_record False False []) = [a_lookup, (Create ''example.com'', payload)]"
    using new by (simp add: root)
  ultimately show ?thesis
    using g1 g0 i by simp
qed

section \<open>Records and documents that are rejected\<close>

text \<open>
  C5. An MX, SRV or NAPTR record that has \<^verbatim>\<open>content\<close> and \<^verbatim>\<open>ttl\<close> but no
  \<^verbatim>\<open>prio\<close> (none, or \<^verbatim>\<open>null\<close>) ends in the report of the missing priority
  with no request made for it, and the loop goes on with the records after it.
\<close>

theorem missing_prio_is_reported_without_calls:
  assumes "record_type \<in> set prio_types"
    and "subscript record ''content'' = Inr content"
    and "subscript record ''ttl'' = Inr ttl"
    and "dict_get record ''prio'' = Inr JNull"
    and "effective_name domain record = Inr name"
  shows "process_record w domain record_type name record force verbose log = (PrioMissing, log)
    \<and> import_record_list w domain record_type force verbose (record # rest) (outs, log) =
        import_record_list w domain record_type force verbose rest (outs @ [PrioMissing], log)"
  using assms by (simp add: process_record_def)

theorem missing_prio_is_reported_without_calls_witness:
  "''MX'' \<in> set prio_types
   \<and> dict_get mx_without_prio ''prio'' = Inr JNull
   \<and> effective_name ''example.com'' mx_without_prio = Inr ''example.com.''
   \<and> process_record memory_world ''example.com'' ''MX'' ''example.com.'' mx_without_prio
        False False [] = (PrioMissing, [])
   \<and> import_record_list memory_world ''example.com'' ''MX'' False False
        [mx_without_prio, mx_record] ([], []) =
      import_record_list memory_world ''example.com'' ''MX'' False False
        [mx_record] ([PrioMissing], [])
   \<and> fst (snd (import_record_list memory_world ''example.com'' ''MX'' False False
        [mx_without_prio, mx_record] ([], []))) = [PrioMissing, Created (JStr ''SUCCESS'')]"
proof -
  have ty: "''MX'' \<in> set prio_types"
    by (simp add: prio_types_def)
  have c: "subscript mx_without_prio ''content'' = Inr (JStr ''mail.example.com'')"
    and t: "subscript mx_without_prio ''ttl'' = Inr (JStr ''300'')"
    and p: "dict_get mx_without_prio ''prio'' = Inr JNull"
    by (simp_all add: mx_without_prio_def)
  have n: "effective_name ''example.com'' mx_without_prio = Inr ''example.com.''"
    by code_simp
  note inst = missing_prio_is_reported_without_calls [OF ty c t p n,
      where w = memory_world and force = False and verbose = False and log = "[]"
        and outs = "[]" and rest = "[mx_record]"]
  have rest: "fst (snd (import_record_list memory_world ''example.com'' ''MX'' False False
        [mx_record] ([PrioMissing], []))) = [PrioMissing, Created (JStr ''SUCCESS'')]"
    by code_simp
  show ?thesis
    using inst ty p n rest by simp
qed

text \<open>
  C6. A document that fails the schema validation is rejected by \<^verbatim>\<open>read_input\<close>
  with a \<^verbatim>\<open>ValueError\<close>, and the import ends with exit code 1 without a
  single request: nothing is looked up, created or updated.
\<close>

theorem invalid_document_makes_no_call:
  assumes "\<not> validate_json_schema sf data"
  shows "read_input sf (Some data) = Inl ValueError
    \<and> main_import w sf (Some data) force verbose log = (1, [], log)"
  using assms by (simp add: read_input_def main_import_def)

theorem invalid_document_makes_no_call_witness:
  "\<not> validate_json_schema (Schema spec_schema) list_valued_document
   \<and> read_input (Schema spec_schema) (Some list_valued_document) = Inl ValueError
   \<and> main_import memory_world (Schema spec_schema) (Some list_valued_document) False False []
     = (1, [], [])"
proof -
  have bad: "\<not> validate_json_schema (Schema spec_schema) list_valued_document"
    by (simp add: list_valued_document_def)
  show ?thesis
    using bad invalid_document_makes_no_call [OF bad, of memory_world False False "[]"]
    by simp
qed

section \<open>The lookup\<close>

text \<open>
  C4. The lookup is to return the first candidate of the reply whose content
  equals the given content and, for MX, SRV and NAPTR, whose priority has the
  same text as the given priority, and to report no match when no candidate
  passes. For the priority 0 the code does otherwise. The provider holds the
  mail record with priority 10 and answers the lookup with it; no candidate has
  the priority 0; yet the lookup for the priority 0 returns the record with
  priority 10, and the import skips the record as already present.
\<close>

theorem zero_prio_matches_any_prio:
  "provider memory_world [mx_create]
       (lookup_request memory_world ''example.com'' ''MX'' ''example.com.'')
     = success_reply [mx_stored]
   \<and> List.find (spec_matches (container_str memory_world) ''MX''
         (JStr ''mail.example.com'') (JInt 0)) [mx_stored] = None
   \<and> fst (get_existing_record memory_world ''example.com'' ''MX'' ''example.com.''
         (JStr ''mail.example.com'') (JInt 0) False [mx_create])
     = Inr (Some mx_stored)
   \<and> fst (process_record memory_world ''example.com'' ''MX'' ''example.com.'' mx_prio_zero
         False False [mx_create])
     = Skipped"
  by code_simp

section \<open>The requests of one record\<close>

text \<open>
  Whatever the record and the provider, \<^verbatim>\<open>process_record\<close> makes no request, the
  lookup alone, or the lookup and one write built from the fields of the record.
\<close>

lemma process_record_log_cases:
  "snd (process_record w domain record_type name record force verbose log) = log
   \<or> snd (process_record w domain record_type name record force verbose log)
       = log @ [lookup_request w domain record_type name]
   \<or> (\<exists>content ttl prio.
         subscript record ''content'' = Inr content \<and> subscript record ''ttl'' = Inr ttl
         \<and> dict_get record ''prio'' = Inr prio
         \<and> snd (process_record w domain record_type name record force verbose log)
             = log @ [lookup_request w domain record_type name,
                      create_request w domain record_type content ttl prio])
   \<or> (\<exists>content ttl prio record_id.
         subscript record ''content'' = Inr content \<and> subscript record ''ttl'' = Inr ttl
         \<and> dict_get record ''prio'' = Inr prio
         \<and> snd (process_record w domain record_type name record force verbose log)
             = log @ [lookup_request w domain record_type name,
                      edit_request w domain record_id record_type content ttl prio])"
proof (cases "subscript record ''content''")
  case (Inl e)
  then show ?thesis by (simp add: process_record_def)
next
  case content: (Inr content)
  show ?thesis
  proof (cases "subscript record ''ttl''")
    case (Inl e)
    then show ?thesis using content by (simp add: process_record_def)
  next
    case ttl: (Inr ttl)
    show ?thesis
    proof (cases "dict_get record ''prio''")
      case (Inl e)
      then show ?thesis using content ttl by (simp add: process_record_def)
    next
      case prio: (Inr prio)
      let ?lk = "lookup_request w domain record_type name"
      obtain found log1 where
        g: "get_existing_record w domain record_type name content prio verbose log = (found, log1)"
        by (cases "get_existing_record w domain record_type name content prio verbose log")
      then have log1: "log1 = log @ [?lk]"
        using get_existing_record_log [of w domain record_type name content prio verbose log]
        by simp
      show ?thesis
      proof (cases "record_type \<in> set prio_types \<and> prio = JNull")
        case True
        then show ?thesis using content ttl prio by (simp add: process_record_def)
      next
        case False
        then have ok: "record_type \<in> set prio_types \<longrightarrow> prio \<noteq> JNull"
          by blast
        note eq = process_record_fields [OF content ttl prio ok g]
        show ?thesis
        proof (cases found)
          case (Inl e)
          then show ?thesis by (simp add: eq log1)
        next
          case (Inr opt)
          show ?thesis
          proof (cases opt)
            case None
            then have "snd (process_record w domain record_type name record force verbose log)
                = log @ [?lk, create_request w domain record_type content ttl prio]"
              using Inr ok by (simp add: eq log1 create_branch_log)
            then show ?thesis using content ttl prio by blast
          next
            case (Some er)
            show ?thesis
            proof (cases force)
              case False
              then show ?thesis using Some Inr by (simp add: eq log1)
            next
              case True
              show ?thesis
              proof (cases "subscript er ''id''")
                case (Inl e)
                then show ?thesis
                  using True Some Inr by (simp add: eq log1 update_branch_no_id)
              next
                case (Inr record_id)
                then have "snd (process_record w domain record_type name record force verbose log)
                    = log @ [?lk, edit_request w domain record_id record_type content ttl prio]"
                  using True Some \<open>found = Inr opt\<close> by (simp add: eq log1 update_branch_log)
                then show ?thesis using content ttl prio by blast
              qed
            qed
          qed
        qed
      qed
    qed
  qed
qed

text \<open>
  C8, as the code has it. A create request of \<^verbatim>\<open>process_record\<close> is the one
  request after the lookup. Its payload is the two credentials followed by
  \<^verbatim>\<open>type\<close>, \<^verbatim>\<open>content\<close>, \<^verbatim>\<open>ttl\<close> and \<^verbatim>\<open>name\<close>, and by \<^verbatim>\<open>prio\<close> exactly for
  MX, SRV and NAPTR; content, ttl and prio are those of the record. The name is
  \<^verbatim>\<open>@\<close> when the domain is its own two-label root and the first label of the
  domain otherwise; the name of the record has no part in it.
\<close>

theorem create_payload_fields:
  assumes "snd (process_record w domain record_type name record force verbose log) = log @ calls"
    and "(Create root, payload) \<in> set calls"
  shows "\<exists>content ttl prio.
      subscript record ''content'' = Inr content \<and> subscript record ''ttl'' = Inr ttl
      \<and> dict_get record ''prio'' = Inr prio
      \<and> root = root_domain domain
      \<and> payload =
          [(''secretapikey'', JStr (SECRET_KEY w)), (''apikey'', JStr (API_KEY w)),
           (''type'', JStr record_type), (''content'', content), (''ttl'', ttl),
           (''name'', JStr (if domain \<noteq> root_domain domain then first_label domain else ''@''))]
          @ (if record_type \<in> set prio_types then [(''prio'', prio)] else [])
      \<and> calls = [lookup_request w domain record_type name, (Create root, payload)]"
proof -
  let ?lk = "lookup_request w domain record_type name"
  from process_record_log_cases [of w domain record_type name "record" force verbose log]
  consider "calls = []" | "calls = [?lk]"
    | content ttl prio where "subscript record ''content'' = Inr content"
        "subscript record ''ttl'' = Inr ttl" "dict_get record ''prio'' = Inr prio"
        "calls = [?lk, create_request w domain record_type content ttl prio]"
    | content ttl prio record_id where
        "calls = [?lk, edit_request w domain record_id record_type content ttl prio]"
    unfolding assms(1) by auto
  then show ?thesis
  proof cases
    case 1
    then show ?thesis using assms(2) by simp
  next
    case 2
    then show ?thesis using assms(2) by (simp add: lookup_request_def)
  next
    case (3 content ttl prio)
    then have "(Create root, payload) = create_request w domain record_type content ttl prio"
      using assms(2) by (auto simp: lookup_request_def)
    then show ?thesis
      using 3
      by (auto simp: create_request_def record_fields_def credentials_def payload_name_def)
  next
    case (4 content ttl prio record_id)
    then show ?thesis using assms(2) by (auto simp: lookup_request_def edit_request_def)
  qed
qed

theorem create_payload_fields_witness:
  "snd (process_record memory_world ''example.com'' ''A'' ''@'' a_record False False [])
     = [] @ [(RetrieveByNameType ''example.com'' ''A'' [], credentials memory_world), a_create]
   \<and> a_create \<in> set [(RetrieveByNameType ''example.com'' ''A'' [], credentials memory_world),
        a_create]
   \<and> snd a_create =
        [(''secretapikey'', JStr ''sk1_example''), (''apikey'', JStr ''pk1_example''),
         (''type'', JStr ''A''), (''content'', JStr ''192.0.2.1''), (''ttl'', JStr ''300''),
         (''name'', JStr ''@'')]
   \<and> [(RetrieveByNameType ''example.com'' ''A'' [], credentials memory_world), a_create]
       = [lookup_request memory_world ''example.com'' ''A'' ''@'', a_create]"
proof -
  have run: "snd (process_record memory_world ''example.com'' ''A'' ''@'' a_record False False [])
     = [] @ [(RetrieveByNameType ''example.com'' ''A'' [], credentials memory_world), a_create]"
    by code_simp
  have mem: "(Create ''example.com'', snd a_create)
      \<in> set [(RetrieveByNameType ''example.com'' ''A'' [], credentials memory_world), a_create]"
    by (simp add: a_create_def)
  have c: "subscript a_record ''content'' = Inr (JStr ''192.0.2.1'')"
    and t: "subscript a_record ''ttl'' = Inr (JStr ''300'')"
    and root: "root_domain ''example.com'' = ''example.com''"
    and ty: "''A'' \<notin> set prio_types"
    and keys: "SECRET_KEY memory_world = ''sk1_example''" "API_KEY memory_world = ''pk1_example''"
    and cr: "(Create ''example.com'', snd a_create) = a_create"
    by code_simp+
  from create_payload_fields [OF run mem]
  show ?thesis
    using run mem by (simp add: c t root ty keys cr)
qed

text \<open>
  C8 as it is worded fails on the name. In the first document the record is named
  \<^verbatim>\<open>www\<close> under \<^verbatim>\<open>example.com\<close>: its name is not the domain, and the payload
  says \<^verbatim>\<open>@\<close>. In the second the record has the name of its domain,
  \<^verbatim>\<open>www.example.com\<close>, and the payload says \<^verbatim>\<open>www\<close>.
\<close>

theorem create_name_ignores_record_name_counterexample:
  "effective_name ''example.com'' www_record = Inr ''www.''
   \<and> snd (snd (import_dns_records memory_world www_document False False ([], []))) =
       [(RetrieveByNameType ''example.com'' ''A'' ''www.'',
         [(''secretapikey'', JStr ''sk1_example''), (''apikey'', JStr ''pk1_example'')]),
        (Create ''example.com'',
         [(''secretapikey'', JStr ''sk1_example''), (''apikey'', JStr ''pk1_example''),
          (''type'', JStr ''A''), (''content'', JStr ''192.0.2.1''), (''ttl'', JStr ''300''),
          (''name'', JStr ''@'')])]
   \<and> effective_name ''www.example.com'' a_record = Inr ''www.example.com.''
   \<and> snd (snd (import_dns_records memory_world sub_document False False ([], []))) =
       [(RetrieveByNameType ''example.com'' ''A'' ''www.example.com.'',
         [(''secretapikey'', JStr ''sk1_example''), (''apikey'', JStr ''pk1_example'')]),
        (Create ''example.com'',
         [(''secretapikey'', JStr ''sk1_example''), (''apikey'', JStr ''pk1_example''),
          (''type'', JStr ''A''), (''content'', JStr ''192.0.2.1''), (''ttl'', JStr ''300''),
          (''name'', JStr ''www'')])]"
  by code_simp

section \<open>The root domain\<close>

lemma split_on_not_Nil: "split_on c s \<noteq> []"
  by (induction s) (auto split: list.splits)

lemma split_on_label: "c \<notin> set l \<Longrightarrow> split_on c l = [l]"
  by (induction l) auto

lemma split_on_append:
  "c \<notin> set l \<Longrightarrow> split_on c (l @ c # rest) = l # split_on c rest"
  by (induction l) auto

lemma split_on_join:
  "labels \<noteq> [] \<Longrightarrow> \<forall>l \<in> set labels. c \<notin> set l \<Longrightarrow> split_on c (join [c] labels) = labels"
proof (induction "[c]" labels rule: join.induct)
  case 1
  then show ?case by simp
next
  case (2 x)
  then show ?case by (simp add: split_on_label)
next
  case (3 x y ys)
  then show ?case by (simp add: split_on_append)
qed

lemma last_two_short: "length xs \<le> 2 \<Longrightarrow> last_two xs = xs"
  by (simp add: last_two_def)

lemma last_two_Cons:
  assumes "2 \<le> length xs"
  shows "last_two (x # xs) = last_two xs"
proof -
  have "length (x # xs) - 2 = Suc (length xs - 2)"
    using assms by simp
  then show ?thesis
    unfolding last_two_def by (simp only: drop_Suc_Cons)
qed

lemma join_Cons_length:
  "xs \<noteq> [] \<Longrightarrow> length (join s (x # xs)) = length x + length s + length (join s xs)"
  by (cases xs) simp_all

lemma join_last_two_shorter:
  "2 < length xs \<Longrightarrow> s \<noteq> [] \<Longrightarrow> length (join s (last_two xs)) < length (join s xs)"
proof (induction xs)
  case Nil
  then show ?case by simp
next
  case (Cons x xs)
  then have two: "2 \<le> length xs" and ne: "xs \<noteq> []"
    by auto
  have step: "length (join s xs) < length (join s (x # xs))"
    using ne Cons.prems(2) by (simp add: join_Cons_length)
  show ?case
  proof (cases "2 < length xs")
    case True
    then show ?thesis
      using Cons.IH Cons.prems(2) step two by (simp add: last_two_Cons)
  next
    case False
    then have "last_two xs = xs"
      using two by (simp add: last_two_short)
    then show ?thesis
      using step two by (simp add: last_two_Cons)
  qed
qed

lemma root_domain_join:
  assumes "labels \<noteq> []" and "\<forall>l \<in> set labels. CHR ''.'' \<notin> set l"
  shows "root_domain (join ''.'' labels) = join ''.'' (last_two labels)"
  using split_on_join [OF assms] by (simp add: root_domain_def)

lemma payload_name_join:
  assumes "labels \<noteq> []" and "\<forall>l \<in> set labels. CHR ''.'' \<notin> set l"
  shows "payload_name (join ''.'' labels) = (if 2 < length labels then hd labels else ''@'')"
proof (cases "2 < length labels")
  case True
  then have "length (join ''.'' (last_two labels)) < length (join ''.'' labels)"
    by (simp add: join_last_two_shorter)
  then have "join ''.'' labels \<noteq> join ''.'' (last_two labels)"
    by auto
  moreover have "first_label (join ''.'' labels) = hd labels"
  proof -
    obtain x xs where "labels = x # xs"
      using assms(1) by (cases labels) auto
    then have "split_on CHR ''.'' (join ''.'' labels) = x # xs" and "hd labels = x"
      using split_on_join [OF assms] by simp_all
    then show ?thesis
      unfolding first_label_def by simp
  qed
  ultimately show ?thesis
    using True by (simp add: payload_name_def root_domain_join [OF assms])
next
  case False
  then show ?thesis
    by (simp add: payload_name_def root_domain_join [OF assms] last_two_short)
qed

text \<open>
  C10. Write the domain as its labels joined by dots. The retrieval of all
  records, and every request of \<^verbatim>\<open>process_record\<close> (the lookup by name and type,
  the create, the edit), address the last two labels joined by a dot (the whole
  domain when it has fewer labels). The \<^verbatim>\<open>name\<close> of every create and edit
  payload is the first label of the domain when the domain has more than two
  labels and \<^verbatim>\<open>@\<close> otherwise: it depends on the domain alone, not on the name
  of the record.
\<close>

theorem requests_address_root_domain:
  assumes "labels \<noteq> []"
    and "\<forall>l \<in> set labels. CHR ''.'' \<notin> set l"
    and "domain = join ''.'' labels"
  shows "snd (get_existing_records w domain verbose log) =
       log @ [(Retrieve (join ''.'' (last_two labels)), credentials w)]
    \<and> (\<exists>calls. snd (process_record w domain record_type name record force verbose log)
            = log @ calls
         \<and> list_all (\<lambda>rq. addressed rq = join ''.'' (last_two labels)) calls
         \<and> list_all (\<lambda>rq. map_of (snd rq) ''name''
               = Some (JStr (if 2 < length labels then hd labels else ''@'')))
             (filter is_write calls))"
proof -
  have root: "root_domain domain = join ''.'' (last_two labels)"
    using root_domain_join [OF assms(1,2)] assms(3) by simp
  have nm: "payload_name domain = (if 2 < length labels then hd labels else ''@'')"
    using payload_name_join [OF assms(1,2)] assms(3) by simp
  let ?good = "\<lambda>calls. list_all (\<lambda>rq. addressed rq = root_domain domain) calls
    \<and> list_all (\<lambda>rq. map_of (snd rq) ''name'' = Some (JStr (payload_name domain)))
        (filter is_write calls)"
  have lk: "?good [lookup_request w domain record_type name]"
    by (simp add: lookup_request_def)
  have cr: "?good [lookup_request w domain record_type name,
      create_request w domain record_type content ttl prio]" for content ttl prio
    by (simp add: lookup_request_def create_request_def record_fields_def credentials_def)
  have ed: "?good [lookup_request w domain record_type name,
      edit_request w domain record_id record_type content ttl prio]" for content ttl prio record_id
    by (simp add: lookup_request_def edit_request_def record_fields_def credentials_def)
  have nil: "?good []"
    by simp
  have "\<exists>calls. snd (process_record w domain record_type name record force verbose log)
      = log @ calls \<and> ?good calls"
    using process_record_log_cases [of w domain record_type name "record" force verbose log]
  proof (elim disjE exE conjE)
    assume "snd (process_record w domain record_type name record force verbose log) = log"
    then show ?thesis using nil by (intro exI [of _ "[]"]) simp
  next
    assume "snd (process_record w domain record_type name record force verbose log)
      = log @ [lookup_request w domain record_type name]"
    then show ?thesis using lk by blast
  next
    fix content ttl prio
    assume "snd (process_record w domain record_type name record force verbose log)
      = log @ [lookup_request w domain record_type name,
               create_request w domain record_type content ttl prio]"
    then show ?thesis using cr by blast
  next
    fix content ttl prio record_id
    assume "snd (process_record w domain record_type name record force verbose log)
      = log @ [lookup_request w domain record_type name,
               edit_request w domain record_id record_type content ttl prio]"
    then show ?thesis using ed by blast
  qed
  moreover have "snd (get_existing_records w domain verbose log) =
      log @ [(Retrieve (root_domain domain), credentials w)]"
    by (simp add: get_existing_records_def Let_def split: reply.splits)
  ultimately show ?thesis
    unfolding root nm by simp
qed

theorem requests_address_root_domain_witness:
  "[''www'', ''example'', ''com''] \<noteq> []
   \<and> list_all (\<lambda>l. CHR ''.'' \<notin> set l) [''www'', ''example'', ''com'']
   \<and> ''www.example.com'' = join ''.'' [''www'', ''example'', ''com'']
   \<and> snd (get_existing_records memory_world ''www.example.com'' False []) =
       [(Retrieve ''example.com'', credentials memory_world)]
   \<and> (\<exists>calls. snd (process_record memory_world ''www.example.com'' ''A'' ''www.example.com.''
            a_record False False []) = calls
         \<and> list_all (\<lambda>rq. addressed rq = ''example.com'') calls
         \<and> list_all (\<lambda>rq. map_of (snd rq) ''name'' = Some (JStr ''www''))
             (filter is_write calls))"
proof -
  have ne: "[''www'', ''example'', ''com''] \<noteq> []"
    by simp
  have free: "\<forall>l \<in> set [''www'', ''example'', ''com'']. CHR ''.'' \<notin> set l"
    by simp
  have dom: "''www.example.com'' = join ''.'' [''www'', ''example'', ''com'']"
    by simp
  note inst = requests_address_root_domain [OF ne free dom, of memory_world False "[]" "''A''"
      "''www.example.com.''" a_record False]
  show ?thesis
    using inst by (simp add: last_two_def)
qed

section \<open>The export\<close>

lemma map_of_dict_set: "map_of (dict_set kvs k v) = (map_of kvs)(k \<mapsto> v)"
  by (induction kvs) (auto simp: fun_eq_iff)

lemma map_of_dict_pop: "map_of (dict_pop kvs k) t = (if t = k then None else map_of kvs t)"
  unfolding dict_pop_def by (induction kvs) auto

lemma map_of_query_all:
  "map_of (query_all resolver domain raw_output record_types records) t =
     (if t \<in> set record_types then
        (case resolver domain t of
           Answers rdatas ttl \<Rightarrow>
             (case answer_entries raw_output t rdatas ttl of
                Inl e \<Rightarrow> map_of records t
              | Inr entries \<Rightarrow> Some entries)
         | _ \<Rightarrow> map_of records t)
      else map_of records t)"
proof (induction record_types arbitrary: records)
  case Nil
  then show ?case by simp
next
  case (Cons a record_types)
  show ?case
    by (cases "a = t")
      (auto simp: Cons.IH map_of_dict_set split: answer.splits sum.splits)
qed

text \<open>
  C7. When the collected records have a CNAME and the keep-both flag is unset,
  the result has no A and no AAAA entry and still has the CNAME. When the flag
  is set, the result is all that was collected: every type that the resolver
  answered, CNAME, A and AAAA among them, is present with its entries. Types
  other than A and AAAA are never removed.
\<close>

theorem cname_removes_address_records:
  "(map_of (query_all resolver domain raw_output record_types []) ''CNAME'' \<noteq> None
      \<and> \<not> keep_a_aaaa \<longrightarrow>
      map_of (get_records resolver domain record_types raw_output keep_a_aaaa) ''A'' = None
      \<and> map_of (get_records resolver domain record_types raw_output keep_a_aaaa) ''AAAA'' = None)
   \<and> (keep_a_aaaa \<longrightarrow>
        get_records resolver domain record_types raw_output keep_a_aaaa =
          query_all resolver domain raw_output record_types [])
   \<and> (keep_a_aaaa \<and> t \<in> set record_types \<and> resolver domain t = Answers rdatas ttl
        \<and> answer_entries raw_output t rdatas ttl = Inr entries \<longrightarrow>
        map_of (get_records resolver domain record_types raw_output keep_a_aaaa) t = Some entries)
   \<and> (t \<noteq> ''A'' \<and> t \<noteq> ''AAAA'' \<longrightarrow>
        map_of (get_records resolver domain record_types raw_output keep_a_aaaa) t =
          map_of (query_all resolver domain raw_output record_types []) t)"
  by (simp add: get_records_def Let_def map_of_dict_pop map_of_query_all)

theorem cname_removes_address_records_witness:
  "map_of (query_all example_resolver ''example.com'' False [''A'', ''AAAA'', ''CNAME'', ''MX''] [])
       ''CNAME'' \<noteq> None
   \<and> get_records example_resolver ''example.com'' [''A'', ''AAAA'', ''CNAME'', ''MX''] False False
     = [(''CNAME'', [Tup [S ''target.example.net.'', N 300]]),
        (''MX'', [Tup [S ''mail.example.com.'', N 10, N 300]])]
   \<and> map_of (get_records example_resolver ''example.com'' [''A'', ''AAAA'', ''CNAME'', ''MX'']
        False False) ''A'' = None
   \<and> example_resolver ''example.com'' ''A'' = Answers [Rdata ''192.0.2.1'' Plain_rdata] 300
   \<and> answer_entries False ''A'' [Rdata ''192.0.2.1'' Plain_rdata] 300
     = Inr [Tup [S ''192.0.2.1'', N 300]]
   \<and> map_of (get_records example_resolver ''example.com'' [''A'', ''AAAA'', ''CNAME'', ''MX'']
        False True) ''A'' = Some [Tup [S ''192.0.2.1'', N 300]]
   \<and> get_records example_resolver ''example.com'' [''A'', ''AAAA'', ''CNAME'', ''MX''] False True
     = [(''A'', [Tup [S ''192.0.2.1'', N 300]]),
        (''CNAME'', [Tup [S ''target.example.net.'', N 300]]),
        (''MX'', [Tup [S ''mail.example.com.'', N 10, N 300]])]"
proof -
  let ?types = "[''A'', ''AAAA'', ''CNAME'', ''MX'']"
  have cname: "map_of (query_all example_resolver ''example.com'' False ?types []) ''CNAME''
      \<noteq> None"
    by code_simp
  have ans: "example_resolver ''example.com'' ''A'' = Answers [Rdata ''192.0.2.1'' Plain_rdata] 300"
    by code_simp
  have ent: "answer_entries False ''A'' [Rdata ''192.0.2.1'' Plain_rdata] 300
      = Inr [Tup [S ''192.0.2.1'', N 300]]"
    by code_simp
  have dropped: "get_records example_resolver ''example.com'' ?types False False
     = [(''CNAME'', [Tup [S ''target.example.net.'', N 300]]),
        (''MX'', [Tup [S ''mail.example.com.'', N 10, N 300]])]"
    by code_simp
  have kept: "get_records example_resolver ''example.com'' ?types False True
     = [(''A'', [Tup [S ''192.0.2.1'', N 300]]),
        (''CNAME'', [Tup [S ''target.example.net.'', N 300]]),
        (''MX'', [Tup [S ''mail.example.com.'', N 10, N 300]])]"
    by code_simp
  note unset = cname_removes_address_records [of example_resolver "''example.com''" False ?types
      False "''A''" "[Rdata ''192.0.2.1'' Plain_rdata]" 300 "[Tup [S ''192.0.2.1'', N 300]]"]
  note set = cname_removes_address_records [of example_resolver "''example.com''" False ?types
      True "''A''" "[Rdata ''192.0.2.1'' Plain_rdata]" 300 "[Tup [S ''192.0.2.1'', N 300]]"]
  have "map_of (get_records example_resolver ''example.com'' ?types False False) ''A'' = None"
    using unset cname by blast
  moreover have mem: "''A'' \<in> set ?types"
    by simp
  moreover have "map_of (get_records example_resolver ''example.com'' ?types False True) ''A''
      = Some [Tup [S ''192.0.2.1'', N 300]]"
    using set ans ent mem by blast
  ultimately show ?thesis
    using cname ans ent dropped kept by blast
qed

section \<open>Formatted records\<close>

lemma typed_tuple_typed:
  "typed_tuple record_type ttl r = Inr e \<Longrightarrow> record_type \<in> set prio_types \<Longrightarrow>
   typed_entry record_type e"
  by (cases r)
    (auto simp: typed_entry_def prio_types_def split: if_splits attributes.splits)

lemma map_err_list_all:
  "map_err f xs = Inr ys \<Longrightarrow> (\<And>x y. f x = Inr y \<Longrightarrow> P y) \<Longrightarrow> list_all P ys"
  by (induction xs arbitrary: ys) (auto split: sum.splits)

lemma answer_entries_typed:
  assumes "answer_entries False record_type rdatas ttl = Inr entries"
  shows "list_all (typed_entry record_type) entries"
proof (cases "record_type \<in> set prio_types")
  case True
  then have "map_err (typed_tuple record_type ttl) rdatas = Inr entries"
    using assms by (simp add: answer_entries_def)
  then show ?thesis
    using map_err_list_all [where f = "typed_tuple record_type ttl"
        and P = "typed_entry record_type"] typed_tuple_typed True
    by blast
next
  case False
  then have "entries = map (\<lambda>r. Tup [S (rdata_text r), N ttl]) rdatas"
    using assms by (auto simp: answer_entries_def)
  moreover have "typed_entry record_type (Tup [S s, N ttl])" for s
    using False by (auto simp: typed_entry_def prio_types_def)
  ultimately show ?thesis
    by (simp add: list_all_iff)
qed

lemma dict_set_keys: "set (map fst (dict_set kvs k v)) = insert k (set (map fst kvs))"
  by (induction kvs) auto

lemma dict_set_mem: "(a, b) \<in> set (dict_set kvs k v) \<Longrightarrow> a = k \<or> a \<in> fst ` set kvs"
  by (induction kvs) (force split: if_splits)+

lemma dict_set_distinct: "distinct (map fst kvs) \<Longrightarrow> distinct (map fst (dict_set kvs k v))"
  by (induction kvs) (auto dest: dict_set_mem)

lemma dict_set_list_all:
  "list_all P kvs \<Longrightarrow> P (k, v) \<Longrightarrow> list_all P (dict_set kvs k v)"
  by (induction kvs) auto

lemma dict_set_new: "k \<notin> set (map fst kvs) \<Longrightarrow> dict_set kvs k v = kvs @ [(k, v)]"
  by (induction kvs) auto

lemma typed_records_dict_set:
  "typed_records records \<Longrightarrow> list_all (typed_entry record_type) entries \<Longrightarrow>
   typed_records (dict_set records record_type entries)"
  unfolding typed_records_def by (simp add: dict_set_distinct dict_set_list_all)

lemma typed_records_query_all:
  "typed_records records \<Longrightarrow>
   typed_records (query_all resolver domain False record_types records)"
proof (induction record_types arbitrary: records)
  case Nil
  then show ?case by simp
next
  case (Cons record_type record_types)
  show ?case
  proof (cases "resolver domain record_type")
    case (Answers rdatas ttl)
    show ?thesis
    proof (cases "answer_entries False record_type rdatas ttl")
      case (Inl e)
      then show ?thesis using Answers Cons by simp
    next
      case (Inr entries)
      then have "typed_records (dict_set records record_type entries)"
        using Cons.prems by (simp add: typed_records_dict_set answer_entries_typed)
      then show ?thesis using Answers Inr Cons.IH by simp
    qed
  qed (use Cons in simp_all)
qed

lemma typed_records_dict_pop: "typed_records records \<Longrightarrow> typed_records (dict_pop records k)"
  unfolding typed_records_def dict_pop_def
  by (simp add: distinct_map_filter list_all_iff)

lemma typed_records_get_records:
  "typed_records (get_records resolver domain record_types False keep_a_aaaa)"
proof -
  have "typed_records []"
    by (simp add: typed_records_def)
  then have "typed_records (query_all resolver domain False record_types [])"
    by (rule typed_records_query_all)
  then show ?thesis
    by (simp add: get_records_def Let_def typed_records_dict_pop)
qed

lemma format_record_typed:
  assumes "typed_entry record_type e"
  shows "\<exists>j. format_record record_type e = Inr j \<and> has_template record_type j"
proof -
  obtain fs where e: "e = Tup fs"
    using assms by (cases e) (auto simp: typed_entry_def)
  show ?thesis
  proof (cases "record_type = ''MX''")
    case True
    then obtain s b c where "fs = [S s, b, c]"
      using assms e
      by (auto simp: typed_entry_def length_Suc_conv numeral_3_eq_3 split: list.splits field.splits)
    then show ?thesis
      using True e by (simp add: format_record_def prio_types_def has_template_def template_def)
  next
    case notmx: False
    show ?thesis
    proof (cases "record_type = ''SRV''")
      case True
      then have "length fs = Suc (Suc (Suc (Suc (Suc 0))))"
        using assms e by (simp add: typed_entry_def)
      then obtain a b c d f where "fs = [a, b, c, d, f]"
        by (auto simp: length_Suc_conv)
      then show ?thesis
        using True e by (simp add: format_record_def prio_types_def has_template_def template_def)
    next
      case notsrv: False
      show ?thesis
      proof (cases "record_type = ''NAPTR''")
        case True
        then have "length fs = Suc (Suc (Suc (Suc 0)))"
          using assms e by (simp add: typed_entry_def)
        then obtain a b c d where "fs = [a, b, c, d]"
          by (auto simp: length_Suc_conv)
        moreover have "\<exists>s. hd fs = S s"
          using assms e by (auto simp: typed_entry_def split: list.splits field.splits)
        ultimately obtain s b c d where "fs = [S s, b, c, d]"
          by auto
        then show ?thesis
          using True e by (simp add: format_record_def prio_types_def has_template_def template_def)
      next
        case False
        then have "length fs = Suc (Suc 0)"
          using assms e notmx notsrv by (simp add: typed_entry_def)
        then obtain a b where "fs = [a, b]"
          by (auto simp: length_Suc_conv)
        moreover have "\<exists>s. hd fs = S s"
          using assms e by (auto simp: typed_entry_def split: list.splits field.splits)
        ultimately obtain s b where "fs = [S s, b]"
          by auto
        then show ?thesis
          using False notmx notsrv e
          by (simp add: format_record_def prio_types_def has_template_def template_def)
      qed
    qed
  qed
qed

lemma map_err_format_record:
  "list_all (typed_entry record_type) entries \<Longrightarrow>
   \<exists>js. map_err (format_record record_type) entries = Inr js
     \<and> formatted_as record_type entries (JList js)"
proof (induction entries)
  case Nil
  then show ?case by (simp add: formatted_as_def)
next
  case (Cons e entries)
  then obtain js where "map_err (format_record record_type) entries = Inr js"
    and "formatted_as record_type entries (JList js)"
    by auto
  moreover obtain j where "format_record record_type e = Inr j" and "has_template record_type j"
    using Cons.prems format_record_typed by auto
  ultimately show ?case
    by (simp add: formatted_as_def)
qed

lemma format_types_typed:
  "typed_records records \<Longrightarrow> set (map fst records) \<inter> set (map fst formatted) = {} \<Longrightarrow>
   \<exists>out. format_types records formatted = Inr (formatted @ out)
     \<and> list_all2 (\<lambda>kv r. fst kv = fst r \<and> formatted_as (fst r) (snd r) (snd kv)) out records"
proof (induction records arbitrary: formatted)
  case Nil
  then show ?case by simp
next
  case (Cons r records)
  obtain record_type entries where r: "r = (record_type, entries)"
    by (cases r)
  have typed: "list_all (typed_entry record_type) entries" and rest: "typed_records records"
    and fresh: "record_type \<notin> set (map fst records)"
    using Cons.prems(1) r by (auto simp: typed_records_def)
  obtain js where js: "map_err (format_record record_type) entries = Inr js"
    and fit: "formatted_as record_type entries (JList js)"
    using map_err_format_record [OF typed] by auto
  have new: "dict_set formatted record_type (JList js) = formatted @ [(record_type, JList js)]"
    using Cons.prems(2) r by (intro dict_set_new) auto
  have "set (map fst records) \<inter> set (map fst (formatted @ [(record_type, JList js)])) = {}"
    using Cons.prems(2) fresh r by auto
  from Cons.IH [OF rest this]
  obtain out where "format_types records (formatted @ [(record_type, JList js)])
      = Inr ((formatted @ [(record_type, JList js)]) @ out)"
    and "list_all2 (\<lambda>kv r. fst kv = fst r \<and> formatted_as (fst r) (snd r) (snd kv)) out records"
    by auto
  then have "format_types (r # records) formatted
      = Inr (formatted @ ((record_type, JList js) # out))"
    and "list_all2 (\<lambda>kv r. fst kv = fst r \<and> formatted_as (fst r) (snd r) (snd kv))
      ((record_type, JList js) # out) (r # records)"
    using r js new fit by simp_all
  then show ?case by blast
qed

text \<open>
  C9. The records that \<^verbatim>\<open>get_records\<close> returns outside raw mode are always
  formatted, type by type and entry by entry, and every formatted entry has
  exactly the keys of its type, none of them with a null value: \<^verbatim>\<open>content\<close>,
  \<^verbatim>\<open>ttl\<close>, \<^verbatim>\<open>prio\<close> for MX and SRV; \<^verbatim>\<open>content\<close>, \<^verbatim>\<open>ttl\<close>, \<^verbatim>\<open>order\<close>,
  \<^verbatim>\<open>preference\<close> for NAPTR; \<^verbatim>\<open>content\<close>, \<^verbatim>\<open>ttl\<close> for every other type.
\<close>

theorem formatted_entries_have_template:
  "\<exists>formatted.
     format_records domain (get_records resolver domain record_types False keep_a_aaaa)
       = Inr (JObj [(domain, JObj formatted)])
     \<and> list_all2 (\<lambda>kv r. fst kv = fst r \<and> formatted_as (fst r) (snd r) (snd kv))
         formatted (get_records resolver domain record_types False keep_a_aaaa)"
proof -
  have "typed_records (get_records resolver domain record_types False keep_a_aaaa)"
    by (rule typed_records_get_records)
  from format_types_typed [OF this, of "[]"]
  show ?thesis
    by (auto simp: format_records_def)
qed

theorem formatted_entries_have_template_witness:
  "format_records ''example.com''
       (get_records example_resolver ''example.com'' [''A'', ''MX'', ''NAPTR'', ''TXT''] False False)
     = Inr (JObj [(''example.com'', JObj
         [(''A'', JList [JObj [(''content'', JStr ''192.0.2.1''), (''ttl'', JStr ''300'')]]),
          (''MX'', JList [JObj [(''content'', JStr ''mail.example.com.''), (''ttl'', JStr ''300''),
                               (''prio'', JStr ''10'')]]),
          (''NAPTR'', JList [JObj [(''content'', JStr ''sip.example.com.''),
                                  (''ttl'', JStr ''300''), (''order'', JStr ''100''),
                                  (''preference'', JStr ''10'')]])])])"
proof -
  have "format_records ''example.com''
       (get_records example_resolver ''example.com'' [''A'', ''MX'', ''NAPTR'', ''TXT''] False False)
     = Inr (JObj [(''example.com'', JObj
         [(''A'', JList [JObj [(''content'', JStr ''192.0.2.1''), (''ttl'', JStr ''300'')]]),
          (''MX'', JList [JObj [(''content'', JStr ''mail.example.com.''), (''ttl'', JStr ''300''),
                               (''prio'', JStr ''10'')]]),
          (''NAPTR'', JList [JObj [(''content'', JStr ''sip.example.com.''),
                                  (''ttl'', JStr ''300''), (''order'', JStr ''100''),
                                  (''preference'', JStr ''10'')]])])])"
    by code_simp
  then show ?thesis
    using formatted_entries_have_template [of "''example.com''" example_resolver
        "[''A'', ''MX'', ''NAPTR'', ''TXT'']" False]
    by simp
qed

section \<open>A second import\<close>

text \<open>
  C2. A second import of the same document without \<open>force\<close>, into a provider
  that holds exactly what the first import created, is to skip every record and
  to create and edit nothing. For the address record it does. For a text record
  whose content is the empty string it does not: the first import creates the
  record, the provider then answers the lookup with exactly that record, and the
  second import creates it again.
\<close>

theorem second_import_creates_empty_content_again:
  "spec_schema a_document
   \<and> main_import memory_world (Schema spec_schema) (Some a_document) False False []
     = (0, [Created (JStr ''SUCCESS'')], [a_lookup, a_create])
   \<and> main_import memory_world (Schema spec_schema) (Some a_document) False False
       [a_lookup, a_create]
     = (0, [Skipped], [a_lookup, a_create, a_lookup])
   \<and> spec_schema empty_txt_document
   \<and> main_import memory_world (Schema spec_schema) (Some empty_txt_document) False False []
     = (0, [Created (JStr ''SUCCESS'')], [txt_lookup, txt_create])
   \<and> provider memory_world [txt_lookup, txt_create] txt_lookup = success_reply [txt_stored]
   \<and> subscript txt_stored ''content'' = Inr (JStr [])
   \<and> main_import memory_world (Schema spec_schema) (Some empty_txt_document) False False
       [txt_lookup, txt_create]
     = (0, [Created (JStr ''SUCCESS'')], [txt_lookup, txt_create, txt_lookup, txt_create])"
  by code_simp

text \<open>
  The provider has no part in this: a content that is empty, zero or \<^verbatim>\<open>None\<close>
  matches no record of any reply, so a record with such a content is never
  skipped.
\<close>

lemma falsy_content_finds_nothing:
  "\<not> truthy content \<Longrightarrow> find_match cs record_type content prio rs = Inr None"
  by (induction rs) simp_all

lemma falsy_content_no_match:
  assumes "\<not> truthy content"
  shows "fst (get_existing_record w domain record_type name content prio verbose log)
     \<noteq> Inr (Some r)"
  using assms
  by (auto simp: get_existing_record_def match_in_result_def Let_def falsy_content_finds_nothing
      split: reply.splits sum.splits if_splits)

lemma create_branch_not_skipped:
  "fst (create_branch w domain data verbose log) \<noteq> Skipped"
  by (auto simp: create_branch_def split: sum.splits prod.splits)

lemma falsy_content_never_skipped:
  assumes "subscript record ''content'' = Inr content" and "\<not> truthy content"
  shows "fst (process_record w domain record_type name record force verbose log) \<noteq> Skipped"
proof (cases "subscript record ''ttl''")
  case (Inl e)
  then show ?thesis using assms(1) by (simp add: process_record_def)
next
  case ttl: (Inr ttl)
  show ?thesis
  proof (cases "dict_get record ''prio''")
    case (Inl e)
    then show ?thesis using assms(1) ttl by (simp add: process_record_def)
  next
    case prio: (Inr prio)
    show ?thesis
    proof (cases "record_type \<in> set prio_types \<and> prio = JNull")
      case True
      then show ?thesis using assms(1) ttl prio by (simp add: process_record_def)
    next
      case False
      then have ok: "record_type \<in> set prio_types \<longrightarrow> prio \<noteq> JNull"
        by blast
      obtain found log1 where
        g: "get_existing_record w domain record_type name content prio verbose log = (found, log1)"
        by (cases "get_existing_record w domain record_type name content prio verbose log")
      have none: "found \<noteq> Inr (Some r)" for r
        using falsy_content_no_match [OF assms(2), of w domain record_type name prio verbose log r] g
        by simp
      show ?thesis
      proof (cases found)
        case (Inl e)
        then show ?thesis
          by (simp add: process_record_fields [OF assms(1) ttl prio ok g])
      next
        case (Inr opt)
        then have "opt = None"
          using none by (cases opt) auto
        then show ?thesis
          using Inr
          by (simp add: process_record_fields [OF assms(1) ttl prio ok g] create_branch_not_skipped)
      qed
    qed
  qed
qed

text \<open>
  The lookup names the record by its full name with a trailing dot, while the
  create request files it under \<^verbatim>\<open>@\<close> or the first label of the domain. With
  a provider that answers a lookup by the name a record was filed under, the
  second import finds nothing and creates the address record again.
\<close>

lemma second_import_by_name_creates_again:
  "main_import naming_world (Schema spec_schema) (Some a_document) False False []
     = (0, [Created (JStr ''SUCCESS'')], [a_lookup, a_create])
   \<and> provider naming_world [a_lookup, a_create] a_lookup = success_reply []
   \<and> main_import naming_world (Schema spec_schema) (Some a_document) False False
       [a_lookup, a_create]
     = (0, [Created (JStr ''SUCCESS'')], [a_lookup, a_create, a_lookup, a_create])"
  by code_simp

section \<open>Round trips\<close>







end
